theory Spec2Isabelle
  imports Main
begin

section \<open>The Redux slice: store/backgroundSelectionSlice.ts\<close>

text \<open>
  The slice state is a record with the fields of \<^verbatim>\<open>BackgroundSelectionState\<close>. A field that
  may be \<^verbatim>\<open>null\<close> is an option. Field names of the nested objects carry a prefix, because
  record fields are global names: \<^verbatim>\<open>currentFrame.image\<close> is \<open>cf_image\<close>,
  \<^verbatim>\<open>savedBackground.sessionId\<close> is \<open>sb_sessionId\<close>, and so on. Frame counts and dimensions
  are JavaScript numbers that hold integers; they are \<open>int\<close> here.
\<close>

datatype InputMode = Camera | File

datatype ConnectionStatus = Disconnected | Connecting | Connected | ConnError

record CurrentFrame =
  cf_image :: string
  cf_frameCount :: int

record Metadata =
  md_width :: int
  md_height :: int
  md_frameCount :: int

record SavedBackground =
  sb_image :: string
  sb_sessionId :: string
  sb_savedAt :: string
  sb_metadata :: "Metadata option"

record BackgroundSelectionState =
  inputMode :: "InputMode option"
  selectedFileName :: "string option"
  sessionId :: "string option"
  isSessionActive :: bool
  currentFrame :: "CurrentFrame option"
  savedBackground :: "SavedBackground option"
  isProcessing :: bool
  isLoading :: bool
  error :: "string option"
  success :: "string option"
  hasStartedProcessing :: bool
  connectionStatus :: ConnectionStatus
  processingStatus :: string
  hasBackground :: bool

definition initialState :: BackgroundSelectionState where
  "initialState =
     \<lparr> inputMode = None, selectedFileName = None, sessionId = None,
       isSessionActive = False, currentFrame = None, savedBackground = None,
       isProcessing = False, isLoading = False, error = None, success = None,
       hasStartedProcessing = False, connectionStatus = Disconnected,
       processingStatus = ''Not started'', hasBackground = False \<rparr>"

subsection \<open>Payloads of the server events\<close>

record FrameProcessedPayload =
  processed_frame :: string
  frame_count :: int
  status :: string
  has_background :: bool

record MetadataPayload =
  width :: int
  height :: int
  mp_frame_count :: int

record BackgroundSavedPayload =
  message :: string
  background_image :: string
  session_id :: string
  metadata :: "MetadataPayload option"

subsection \<open>The reducers, one definition each, in the order of the source\<close>

definition setInputMode :: "InputMode option \<Rightarrow> BackgroundSelectionState \<Rightarrow> BackgroundSelectionState" where
  "setInputMode m s = s\<lparr>inputMode := m\<rparr>"

definition setSelectedFileName :: "string option \<Rightarrow> BackgroundSelectionState \<Rightarrow> BackgroundSelectionState" where
  "setSelectedFileName n s = s\<lparr>selectedFileName := n\<rparr>"

definition setLoading :: "bool \<Rightarrow> BackgroundSelectionState \<Rightarrow> BackgroundSelectionState" where
  "setLoading b s = s\<lparr>isLoading := b\<rparr>"

definition clearError :: "BackgroundSelectionState \<Rightarrow> BackgroundSelectionState" where
  "clearError s = s\<lparr>error := None\<rparr>"

definition clearSuccess :: "BackgroundSelectionState \<Rightarrow> BackgroundSelectionState" where
  "clearSuccess s = s\<lparr>success := None\<rparr>"

definition setConnectionStatus :: "ConnectionStatus \<Rightarrow> BackgroundSelectionState \<Rightarrow> BackgroundSelectionState" where
  "setConnectionStatus c s = s\<lparr>connectionStatus := c\<rparr>"

definition handleConnected :: "BackgroundSelectionState \<Rightarrow> BackgroundSelectionState" where
  "handleConnected s = s\<lparr>connectionStatus := Connected, error := None\<rparr>"

definition handleDisconnected :: "BackgroundSelectionState \<Rightarrow> BackgroundSelectionState" where
  "handleDisconnected s =
     s\<lparr>connectionStatus := Disconnected, isSessionActive := False, isProcessing := False\<rparr>"

definition handleSessionStarted :: "string \<Rightarrow> BackgroundSelectionState \<Rightarrow> BackgroundSelectionState" where
  "handleSessionStarted sid s =
     s\<lparr>sessionId := Some sid, isSessionActive := True, hasStartedProcessing := True,
       isLoading := False, error := None, processingStatus := ''Session started''\<rparr>"

definition handleFrameProcessed :: "FrameProcessedPayload \<Rightarrow> BackgroundSelectionState \<Rightarrow> BackgroundSelectionState" where
  "handleFrameProcessed p s =
     s\<lparr>currentFrame := Some \<lparr>cf_image = processed_frame p, cf_frameCount = frame_count p\<rparr>,
       isProcessing := True, processingStatus := status p,
       hasBackground := has_background p, error := None\<rparr>"

text \<open>
  \<^verbatim>\<open>handleBackgroundSaved\<close> reads the clock (\<^verbatim>\<open>new Date().toISOString()\<close>); the time
  stamp is the argument \<open>now\<close>.
\<close>

definition handleBackgroundSaved :: "string \<Rightarrow> BackgroundSavedPayload \<Rightarrow> BackgroundSelectionState \<Rightarrow> BackgroundSelectionState" where
  "handleBackgroundSaved now p s =
     s\<lparr>success := Some (message p), isLoading := False,
       savedBackground := Some
         \<lparr>sb_image = background_image p, sb_sessionId = session_id p, sb_savedAt = now,
          sb_metadata = (case metadata p of
             None \<Rightarrow> None
           | Some m \<Rightarrow> Some \<lparr>md_width = width m, md_height = height m,
                              md_frameCount = mp_frame_count m\<rparr>)\<rparr>\<rparr>"

definition handleBackgroundUpdated :: "string \<Rightarrow> BackgroundSelectionState \<Rightarrow> BackgroundSelectionState" where
  "handleBackgroundUpdated msg s = s\<lparr>success := Some msg, processingStatus := ''Background updated''\<rparr>"

definition handleWebSocketError :: "string \<Rightarrow> BackgroundSelectionState \<Rightarrow> BackgroundSelectionState" where
  "handleWebSocketError msg s =
     s\<lparr>error := Some msg, isLoading := False, processingStatus := ''Error occurred''\<rparr>"

definition startSessionRequest :: "BackgroundSelectionState \<Rightarrow> BackgroundSelectionState" where
  "startSessionRequest s =
     s\<lparr>isLoading := True, error := None, processingStatus := ''Starting session...''\<rparr>"

definition saveBackgroundRequest :: "BackgroundSelectionState \<Rightarrow> BackgroundSelectionState" where
  "saveBackgroundRequest s =
     s\<lparr>isLoading := True, error := None, processingStatus := ''Saving background...''\<rparr>"

definition resetSession :: "BackgroundSelectionState \<Rightarrow> BackgroundSelectionState" where
  "resetSession s =
     s\<lparr>sessionId := None, isSessionActive := False, currentFrame := None,
       isProcessing := False, hasStartedProcessing := False, hasBackground := False,
       processingStatus := ''Not started'', error := None, success := None\<rparr>"

definition clearSavedBackground :: "BackgroundSelectionState \<Rightarrow> BackgroundSelectionState" where
  "clearSavedBackground s = s\<lparr>savedBackground := None, success := None\<rparr>"

definition resetAll :: "BackgroundSelectionState \<Rightarrow> BackgroundSelectionState" where
  "resetAll s = initialState"

subsection \<open>Actions and the slice reducer\<close>

datatype Action =
    SetInputMode "InputMode option"
  | SetSelectedFileName "string option"
  | SetLoading bool
  | ClearError
  | ClearSuccess
  | SetConnectionStatus ConnectionStatus
  | HandleConnected
  | HandleDisconnected
  | HandleSessionStarted string
  | HandleFrameProcessed FrameProcessedPayload
  | HandleBackgroundSaved string BackgroundSavedPayload
  | HandleBackgroundUpdated string
  | HandleWebSocketError string
  | StartSessionRequest
  | SaveBackgroundRequest
  | ResetSession
  | ClearSavedBackground
  | ResetAll

fun reducer :: "BackgroundSelectionState \<Rightarrow> Action \<Rightarrow> BackgroundSelectionState" where
  "reducer s (SetInputMode m) = setInputMode m s"
| "reducer s (SetSelectedFileName n) = setSelectedFileName n s"
| "reducer s (SetLoading b) = setLoading b s"
| "reducer s ClearError = clearError s"
| "reducer s ClearSuccess = clearSuccess s"
| "reducer s (SetConnectionStatus c) = setConnectionStatus c s"
| "reducer s HandleConnected = handleConnected s"
| "reducer s HandleDisconnected = handleDisconnected s"
| "reducer s (HandleSessionStarted sid) = handleSessionStarted sid s"
| "reducer s (HandleFrameProcessed p) = handleFrameProcessed p s"
| "reducer s (HandleBackgroundSaved now p) = handleBackgroundSaved now p s"
| "reducer s (HandleBackgroundUpdated msg) = handleBackgroundUpdated msg s"
| "reducer s (HandleWebSocketError msg) = handleWebSocketError msg s"
| "reducer s StartSessionRequest = startSessionRequest s"
| "reducer s SaveBackgroundRequest = saveBackgroundRequest s"
| "reducer s ResetSession = resetSession s"
| "reducer s ClearSavedBackground = clearSavedBackground s"
| "reducer s ResetAll = resetAll s"

text \<open>A sequence of dispatched actions, applied in order.\<close>

definition dispatchAll :: "BackgroundSelectionState \<Rightarrow> Action list \<Rightarrow> BackgroundSelectionState" where
  "dispatchAll s as = foldl reducer s as"

section \<open>The transport connector: services/websocket.ts\<close>

text \<open>
  What the program does to the outside world is recorded as a list of effects, oldest first.
  The socket is the part of the socket.io client that the source reads: its \<^verbatim>\<open>connected\<close>
  flag and its \<^verbatim>\<open>id\<close> (\<^verbatim>\<open>undefined\<close> is \<open>None\<close>). The delay of an interval, a quotient in
  the source, is kept as its numerator and its denominator.
\<close>

datatype ClientEvent =
    Start_session InputMode
  | Process_frame string
  | Save_background
  | Update_background string
  | End_session "string option"

datatype Effect =
    Emit ClientEvent
  | SocketClose
  | SetInterval nat int int
  | ClearInterval nat
  | ClearTimeout nat
  | SetTimeout nat nat
  | TrackStop nat
  | Alert string
  | Navigate string
  | ConsoleError string
  | RevokeObjectURL string
  | Uncaught string

record Socket =
  connected :: bool
  sock_id :: "string option"

text \<open>A media stream is the list of its tracks; a track is known by a number.\<close>

type_synonym MediaStream = "nat list"

record Video =
  readyState :: nat
  videoWidth :: nat
  videoHeight :: nat
  srcObject :: "MediaStream option"
  src :: string

definition HAVE_ENOUGH_DATA :: nat where
  "HAVE_ENOUGH_DATA = 4"

text \<open>
  The source has no \<^verbatim>\<open>throw\<close> of its own; an exception can only come out of a call into
  the browser or into the socket.io client. Two arguments say what these calls do during
  one run of a handler. \<open>Encode\<close> is what the canvas gives: no 2D context, an exception from
  \<^verbatim>\<open>drawImage\<close>, an exception from \<^verbatim>\<open>toDataURL\<close>, or the JPEG data URL of quality 0.8.
  \<open>Fault\<close> names the call that raises, if one does: \<^verbatim>\<open>track.stop()\<close> on the first track
  of a stream, \<^verbatim>\<open>socket.emit\<close>, or \<^verbatim>\<open>socket.disconnect\<close>. The string is the message of
  the error. A function that can raise returns the message as its last component, with
  the state as it is when the exception leaves the function.
\<close>

datatype Encode = NoContext | DrawThrows string | EncodeThrows string | Encoded string

datatype Fault = NoFault | TrackStopThrows string | EmitThrows string | CloseThrows string

definition socketFault :: "Fault \<Rightarrow> bool" where
  "socketFault f = (case f of EmitThrows m \<Rightarrow> True | CloseThrows m \<Rightarrow> True | _ \<Rightarrow> False)"

record WebSocketService =
  socket :: "Socket option"
  frameInterval :: "nat option"
  videoElement :: "Video option"

text \<open>The result of a service function that can raise: effects, service, exception.\<close>

type_synonym Outcome = "Effect list \<times> WebSocketService \<times> string option"

abbreviation effectsOf :: "Outcome \<Rightarrow> Effect list" where
  "effectsOf r \<equiv> fst r"

abbreviation serviceOf :: "Outcome \<Rightarrow> WebSocketService" where
  "serviceOf r \<equiv> fst (snd r)"

abbreviation raisedBy :: "Outcome \<Rightarrow> string option" where
  "raisedBy r \<equiv> snd (snd r)"

definition isConnected :: "WebSocketService \<Rightarrow> bool" where
  "isConnected w = (case socket w of None \<Rightarrow> False | Some k \<Rightarrow> connected k)"

definition emit :: "Fault \<Rightarrow> ClientEvent \<Rightarrow> WebSocketService \<Rightarrow> Outcome" where
  "emit f ev w =
     (if \<not> isConnected w then ([ConsoleError ''Socket not connected''], w, None)
      else (case f of
              EmitThrows msg \<Rightarrow> ([], w, Some msg)
            | _ \<Rightarrow> ([Emit ev], w, None)))"

definition startSession :: "Fault \<Rightarrow> InputMode \<Rightarrow> WebSocketService \<Rightarrow> Outcome" where
  "startSession f m w = emit f (Start_session m) w"

definition saveBackground :: "Fault \<Rightarrow> WebSocketService \<Rightarrow> Outcome" where
  "saveBackground f w = emit f Save_background w"

definition updateBackground :: "Fault \<Rightarrow> string \<Rightarrow> WebSocketService \<Rightarrow> Outcome" where
  "updateBackground f frame w = emit f (Update_background frame) w"

text \<open>
  The payload of \<^verbatim>\<open>end_session\<close> is \<^verbatim>\<open>{ session_id: this.socket?.id }\<close>; \<open>socketId\<close> is
  the expression \<^verbatim>\<open>this.socket?.id\<close>.
\<close>

definition socketId :: "WebSocketService \<Rightarrow> string option" where
  "socketId w = (case socket w of None \<Rightarrow> None | Some k \<Rightarrow> sock_id k)"

definition endSession :: "Fault \<Rightarrow> WebSocketService \<Rightarrow> Outcome" where
  "endSession f w = emit f (End_session (socketId w)) w"

text \<open>\<^verbatim>\<open>stopFrameCapture\<close> calls \<^verbatim>\<open>clearInterval\<close> only and does not raise.\<close>

definition stopFrameCapture :: "WebSocketService \<Rightarrow> Effect list \<times> WebSocketService" where
  "stopFrameCapture w =
     (case frameInterval w of
        None \<Rightarrow> ([], w\<lparr>videoElement := None\<rparr>)
      | Some i \<Rightarrow> ([ClearInterval i], w\<lparr>frameInterval := None, videoElement := None\<rparr>))"

text \<open>
  \<^verbatim>\<open>disconnect()\<close> has no \<^verbatim>\<open>try\<close>: an exception of \<^verbatim>\<open>endSession\<close> or of
  \<^verbatim>\<open>socket.disconnect()\<close> leaves it before \<^verbatim>\<open>this.socket = null\<close>.
\<close>

definition disconnect :: "Fault \<Rightarrow> WebSocketService \<Rightarrow> Outcome" where
  "disconnect f w =
     (let (e1, w1) = stopFrameCapture w in
      if isConnected w1
      then (case endSession f w1 of
              (e2, w2, Some msg) \<Rightarrow> (e1 @ e2, w2, Some msg)
            | (e2, w2, None) \<Rightarrow>
                (case f of
                   CloseThrows msg \<Rightarrow> (e1 @ e2, w2, Some msg)
                 | _ \<Rightarrow> (e1 @ e2 @ [SocketClose], w2\<lparr>socket := None\<rparr>, None)))
      else (e1, w1\<lparr>socket := None\<rparr>, None))"

text \<open>
  \<^verbatim>\<open>startFrameCapture\<close> is the interval loop of the service itself; \<open>captureFrame\<close> is its
  tick. \<^verbatim>\<open>drawImage\<close> stands outside the \<^verbatim>\<open>try\<close> of the tick, so its exception leaves
  the tick; \<^verbatim>\<open>toDataURL\<close> and \<^verbatim>\<open>emit\<close> stand inside. \<open>h\<close> is the handle that
  \<^verbatim>\<open>window.setInterval\<close> returns, and the delay is \<^verbatim>\<open>1000 / fps\<close>, for a whole number
  \<open>fps\<close>. Nothing in the repository calls \<^verbatim>\<open>startFrameCapture\<close>.
\<close>

definition captureFrame :: "Encode \<Rightarrow> Fault \<Rightarrow> WebSocketService \<Rightarrow> Outcome" where
  "captureFrame enc f w =
     (if videoElement w = None \<or> \<not> isConnected w
      then (case stopFrameCapture w of (es, w') \<Rightarrow> (es, w', None))
      else (case enc of
              NoContext \<Rightarrow> ([], w, None)
            | DrawThrows msg \<Rightarrow> ([], w, Some msg)
            | EncodeThrows msg \<Rightarrow> ([ConsoleError ''Error capturing frame:''], w, None)
            | Encoded frameData \<Rightarrow>
                (case emit f (Process_frame frameData) w of
                   (es, w', Some msg) \<Rightarrow> (es @ [ConsoleError ''Error capturing frame:''], w', None)
                 | (es, w', None) \<Rightarrow> (es, w', None))))"

definition startFrameCapture :: "Video \<Rightarrow> int \<Rightarrow> nat \<Rightarrow> Encode \<Rightarrow> Fault \<Rightarrow> WebSocketService \<Rightarrow> Outcome" where
  "startFrameCapture video fps h enc f w =
     (let (e0, w0) = stopFrameCapture w;
          w1 = w0\<lparr>videoElement := Some video\<rparr>
      in case captureFrame enc f w1 of
           (e1, w2, Some msg) \<Rightarrow> (e0 @ e1, w2, Some msg)
         | (e1, w2, None) \<Rightarrow>
             (e0 @ e1 @ [SetInterval h 1000 fps], w2\<lparr>frameInterval := Some h\<rparr>, None))"

text \<open>
  \<^verbatim>\<open>connect()\<close> returns a promise. The model returns whether the promise is resolved at once
  (the socket was connected already) and the new service object; in the other case a fresh
  socket is created, not yet connected, and the promise stays pending until the socket
  reports \<^verbatim>\<open>connect\<close> or \<^verbatim>\<open>connect_error\<close>.
\<close>

definition connect :: "WebSocketService \<Rightarrow> bool \<times> WebSocketService" where
  "connect w =
     (if isConnected w then (True, w)
      else (False, w\<lparr>socket := Some \<lparr>connected = False, sock_id = None\<rparr>\<rparr>))"

section \<open>The page: components/BackgroundSelectionPage.tsx\<close>

text \<open>
  The page state holds the Redux store, the service singleton, the React state and refs of
  the component, the pending timers and the trace of effects. Four fields are bookkeeping
  of the run-time and not variables of the source: \<open>timers\<close> (the timeouts set and neither
  fired nor cleared), \<open>nextTimer\<close> (the next timeout handle), \<open>connectPending\<close> (the promise of
  \<^verbatim>\<open>connect()\<close> is not settled) and \<open>loopCleanup\<close> (the capture effect has returned its
  cleanup function). Log entries are kept without their time stamp; \<^verbatim>\<open>console.log\<close> and the
  drawing of the processed frame on the canvas are presentation and left out.
\<close>

datatype LogType = LogInfo | LogSuccess | LogError

record Page =
  store :: BackgroundSelectionState
  ws :: WebSocketService
  isCapturing :: bool
  localStream :: "MediaStream option"
  frameCount :: int
  fps :: int
  logs :: "(string \<times> LogType) list"
  isUsingVideo :: bool
  videoRef :: "Video option"
  captureIntervalRef :: "nat option"
  lastFrameTimeRef :: int
  isCapturingRef :: bool
  timers :: "nat list"
  nextTimer :: nat
  connectPending :: bool
  loopCleanup :: bool
  effects :: "Effect list"

definition addLog :: "string \<Rightarrow> LogType \<Rightarrow> Page \<Rightarrow> Page" where
  "addLog m t p = p\<lparr>logs := logs p @ [(m, t)]\<rparr>"

definition dispatch :: "Action \<Rightarrow> Page \<Rightarrow> Page" where
  "dispatch a p = p\<lparr>store := reducer (store p) a\<rparr>"

definition perform :: "Effect list \<Rightarrow> Page \<Rightarrow> Page" where
  "perform es p = p\<lparr>effects := effects p @ es\<rparr>"

text \<open>
  A call of the service from the page: \<open>callWs\<close> for a function that does not raise,
  \<open>tryWs\<close> for one that can; the second component of the result is the exception.
\<close>

definition callWs :: "(WebSocketService \<Rightarrow> Effect list \<times> WebSocketService) \<Rightarrow> Page \<Rightarrow> Page" where
  "callWs g p = (case g (ws p) of (es, w) \<Rightarrow> p\<lparr>ws := w, effects := effects p @ es\<rparr>)"

definition tryWs :: "(WebSocketService \<Rightarrow> Outcome) \<Rightarrow> Page \<Rightarrow> Page \<times> string option" where
  "tryWs g p = (case g (ws p) of (es, w, ex) \<Rightarrow> (p\<lparr>ws := w, effects := effects p @ es\<rparr>, ex))"

text \<open>An exception that no handler of the page catches.\<close>

definition uncaught :: "Page \<times> string option \<Rightarrow> Page" where
  "uncaught r = (case r of (q, None) \<Rightarrow> q | (q, Some msg) \<Rightarrow> perform [Uncaught msg] q)"

text \<open>\<^verbatim>\<open>captureIntervalRef.current = window.setTimeout(captureLoop, d)\<close>\<close>

definition setTimeoutCaptureLoop :: "nat \<Rightarrow> Page \<Rightarrow> Page" where
  "setTimeoutCaptureLoop d p =
     (let i = nextTimer p in
      p\<lparr>captureIntervalRef := Some i, timers := timers p @ [i], nextTimer := Suc i,
        effects := effects p @ [SetTimeout i d]\<rparr>)"

definition clearTimeout :: "nat \<Rightarrow> Page \<Rightarrow> Page" where
  "clearTimeout i p = p\<lparr>timers := removeAll i (timers p), effects := effects p @ [ClearTimeout i]\<rparr>"

subsection \<open>The capture loop and its effect\<close>

text \<open>
  The canvas calls and \<^verbatim>\<open>wsService.emit\<close> stand inside the \<^verbatim>\<open>try\<close> of the tick; the
  \<^verbatim>\<open>catch\<close> logs the message, and the next tick is scheduled after it.
\<close>

definition captureLoop :: "Encode \<Rightarrow> Fault \<Rightarrow> Page \<Rightarrow> Page" where
  "captureLoop enc f p =
     (if \<not> isCapturingRef p \<or> videoRef p = None \<or> \<not> isConnected (ws p) then p
      else (case videoRef p of
              None \<Rightarrow> p
            | Some video \<Rightarrow>
                if readyState video \<noteq> HAVE_ENOUGH_DATA then setTimeoutCaptureLoop 100 p
                else (case enc of
                        NoContext \<Rightarrow> setTimeoutCaptureLoop 1000 p
                      | DrawThrows msg \<Rightarrow>
                          setTimeoutCaptureLoop 1000
                            (addLog (''Error capturing frame: '' @ msg) LogError p)
                      | EncodeThrows msg \<Rightarrow>
                          setTimeoutCaptureLoop 1000
                            (addLog (''Error capturing frame: '' @ msg) LogError p)
                      | Encoded frameData \<Rightarrow>
                          (case tryWs (emit f (Process_frame frameData)) p of
                             (q, None) \<Rightarrow> setTimeoutCaptureLoop 1000 q
                           | (q, Some msg) \<Rightarrow>
                               setTimeoutCaptureLoop 1000
                                 (addLog (''Error capturing frame: '' @ msg) LogError q)))))"

definition captureEffectCleanup :: "Page \<Rightarrow> Page" where
  "captureEffectCleanup p =
     (case captureIntervalRef p of
        None \<Rightarrow> p
      | Some i \<Rightarrow> (clearTimeout i p)\<lparr>captureIntervalRef := None\<rparr>)"

definition captureEffect :: "Encode \<Rightarrow> Fault \<Rightarrow> Page \<Rightarrow> Page" where
  "captureEffect enc f p =
     (if \<not> isCapturing p \<or> videoRef p = None \<or> \<not> isConnected (ws p)
      then p\<lparr>loopCleanup := False\<rparr>
      else (captureLoop enc f (addLog ''Starting frame capture loop'' LogInfo p))
             \<lparr>loopCleanup := True\<rparr>)"

text \<open>
  The two effects that depend on \<^verbatim>\<open>[isCapturing]\<close> run after a render in which
  \<open>isCapturing\<close> has changed: first the cleanup of the previous capture effect, then the
  effect that copies \<open>isCapturing\<close> into \<open>isCapturingRef\<close>, then the capture effect. The ref
  holds the value of the last such render, so the state has changed exactly when the two
  differ.
\<close>

definition commit :: "Encode \<Rightarrow> Fault \<Rightarrow> Page \<Rightarrow> Page" where
  "commit enc f p =
     (if isCapturing p = isCapturingRef p then p
      else captureEffect enc f
             ((if loopCleanup p then captureEffectCleanup p else p)
                \<lparr>isCapturingRef := isCapturing p\<rparr>))"

text \<open>
  The page renders the video element only while no background is saved; React sets the ref
  to \<^verbatim>\<open>null\<close> when the element goes, and to a new element when it comes back.
\<close>

definition newVideo :: Video where
  "newVideo = \<lparr>readyState = 0, videoWidth = 0, videoHeight = 0, srcObject = None, src = ''''\<rparr>"

definition renderView :: "Page \<Rightarrow> Page" where
  "renderView p =
     (if savedBackground (store p) \<noteq> None then p\<lparr>videoRef := None\<rparr>
      else if videoRef p = None then p\<lparr>videoRef := Some newVideo\<rparr>
      else p)"

subsection \<open>The handlers\<close>

text \<open>
  \<^verbatim>\<open>stopCapture\<close> reads \<open>localStream\<close> and \<open>isUsingVideo\<close> from the render that created the
  closure; they are the arguments \<open>ls\<close> and \<open>iuv\<close>. \<^verbatim>\<open>forEach(track => track.stop())\<close>
  raises when \<^verbatim>\<open>track.stop()\<close> raises and the stream has a track; the statements after it
  are then not reached.
\<close>

definition releaseRaises :: "Fault \<Rightarrow> MediaStream option \<Rightarrow> string option" where
  "releaseRaises f ls =
     (case f of
        TrackStopThrows msg \<Rightarrow> (case ls of None \<Rightarrow> None | Some [] \<Rightarrow> None | Some (t # ts) \<Rightarrow> Some msg)
      | _ \<Rightarrow> None)"

definition stopCapture :: "Fault \<Rightarrow> MediaStream option \<Rightarrow> bool \<Rightarrow> Page \<Rightarrow> Page \<times> string option" where
  "stopCapture f ls iuv p =
     (let p1 = addLog ''Stopping capture...'' LogInfo p;
          p2 = p1\<lparr>isCapturing := False\<rparr>;
          p3 = (case captureIntervalRef p2 of
                  None \<Rightarrow> p2
                | Some i \<Rightarrow> (clearTimeout i p2)\<lparr>captureIntervalRef := None\<rparr>)
      in case releaseRaises f ls of
           Some msg \<Rightarrow> (p3, Some msg)
         | None \<Rightarrow>
             (let p4 = (case ls of
                          None \<Rightarrow> p3
                        | Some tracks \<Rightarrow>
                            (perform (map TrackStop tracks) p3)\<lparr>localStream := None\<rparr>);
                  p5 = (case videoRef p4 of
                          None \<Rightarrow> p4
                        | Some video \<Rightarrow>
                            if \<not> iuv then p4\<lparr>videoRef := Some (video\<lparr>srcObject := None\<rparr>)\<rparr>
                            else p4);
                  p6 = callWs stopFrameCapture p5
              in (addLog ''Capture stopped'' LogInfo p6, None)))"

text \<open>\<^verbatim>\<open>!sessionId\<close> holds for \<^verbatim>\<open>null\<close> and for the empty string.\<close>

definition falsy :: "string option \<Rightarrow> bool" where
  "falsy x = (case x of None \<Rightarrow> True | Some v \<Rightarrow> v = [])"

text \<open>\<^verbatim>\<open>handleSaveBackground\<close> has no \<^verbatim>\<open>try\<close>.\<close>

definition handleSaveBackground :: "Fault \<Rightarrow> Page \<Rightarrow> Page" where
  "handleSaveBackground f p =
     (if \<not> isConnected (ws p) \<or> falsy (sessionId (store p))
      then perform [Alert ''No active session''] p
      else uncaught
             (tryWs (saveBackground f)
                (dispatch SaveBackgroundRequest (addLog ''Saving background...'' LogInfo p))))"

definition handleUpdateBackground :: "Encode \<Rightarrow> Fault \<Rightarrow> Page \<Rightarrow> Page" where
  "handleUpdateBackground enc f p =
     (if \<not> isConnected (ws p) \<or> videoRef p = None
      then perform [Alert ''Not connected''] p
      else (case enc of
              NoContext \<Rightarrow> p
            | DrawThrows msg \<Rightarrow> addLog (''Error updating background: '' @ msg) LogError p
            | EncodeThrows msg \<Rightarrow> addLog (''Error updating background: '' @ msg) LogError p
            | Encoded frameData \<Rightarrow>
                (case tryWs (updateBackground f frameData) p of
                   (q, None) \<Rightarrow> addLog ''Updating background with current frame...'' LogInfo q
                 | (q, Some msg) \<Rightarrow>
                     addLog (''Error updating background: '' @ msg) LogError q)))"

text \<open>
  \<^verbatim>\<open>handleProceedToCalibration\<close>: the \<^verbatim>\<open>try\<close> block holds \<^verbatim>\<open>stopCapture()\<close>,
  \<^verbatim>\<open>wsService.disconnect()\<close>, the dispatch and the navigation; the \<^verbatim>\<open>catch\<close> block logs
  and navigates.
\<close>

definition handleProceedToCalibration_catch :: "string \<Rightarrow> Page \<Rightarrow> Page" where
  "handleProceedToCalibration_catch msg q =
     perform [Navigate ''/calibration''] (addLog (''Error during cleanup: '' @ msg) LogError q)"

definition handleProceedToCalibration :: "Fault \<Rightarrow> Page \<Rightarrow> Page" where
  "handleProceedToCalibration f p =
     (let p1 = addLog ''Ending session and proceeding to calibration...'' LogInfo p in
      case stopCapture f (localStream p) (isUsingVideo p) p1 of
        (p2, Some msg) \<Rightarrow> handleProceedToCalibration_catch msg p2
      | (p2, None) \<Rightarrow>
          (case tryWs (disconnect f) p2 of
             (p3, Some msg) \<Rightarrow> handleProceedToCalibration_catch msg p3
           | (p3, None) \<Rightarrow>
               (let p4 = dispatch HandleDisconnected p3;
                    p5 = addLog ''WebSocket disconnected'' LogInfo p4
                in perform [Navigate ''/calibration''] p5)))"

text \<open>
  \<^verbatim>\<open>handleRedoBackground\<close>: the \<^verbatim>\<open>catch\<close> block logs and resets the store and the local
  state; \<open>handleRedoBackground_reset\<close> is the rest of the \<^verbatim>\<open>try\<close> block after the
  disconnect, where \<open>iuv\<close> is \<open>isUsingVideo\<close> of the closure.
\<close>

definition handleRedoBackground_catch :: "string \<Rightarrow> Page \<Rightarrow> Page" where
  "handleRedoBackground_catch msg q =
     (let q1 = addLog (''Error during reset: '' @ msg) LogError q;
          q2 = dispatch ResetSession (dispatch ClearSavedBackground q1)
      in q2\<lparr>frameCount := 0, fps := 0, logs := [], isUsingVideo := False\<rparr>)"

definition handleRedoBackground_reset :: "bool \<Rightarrow> Page \<Rightarrow> Page" where
  "handleRedoBackground_reset iuv p3 =
     (let p4 = dispatch ResetSession (dispatch ClearSavedBackground p3);
          p5 = p4\<lparr>frameCount := 0, fps := 0, logs := [], isUsingVideo := False\<rparr>;
          p6 = (case videoRef p5 of
                  None \<Rightarrow> p5
                | Some video \<Rightarrow>
                    if iuv
                    then (perform (if take 5 (src video) = ''blob:''
                                   then [RevokeObjectURL (src video)] else []) p5)
                           \<lparr>videoRef := Some (video\<lparr>src := ''''\<rparr>)\<rparr>
                    else p5)
      in addLog ''Ready to start new background selection'' LogSuccess p6)"

definition handleRedoBackground :: "Fault \<Rightarrow> Page \<Rightarrow> Page" where
  "handleRedoBackground f p =
     (let p1 = addLog ''Redoing background selection...'' LogInfo p in
      case stopCapture f (localStream p) (isUsingVideo p) p1 of
        (p2, Some msg) \<Rightarrow> handleRedoBackground_catch msg p2
      | (p2, None) \<Rightarrow>
          if isConnected (ws p2)
          then (case tryWs (disconnect f) p2 of
                  (p3, Some msg) \<Rightarrow> handleRedoBackground_catch msg p3
                | (p3, None) \<Rightarrow>
                    handleRedoBackground_reset (isUsingVideo p)
                      (addLog ''Session ended'' LogSuccess p3))
          else handleRedoBackground_reset (isUsingVideo p) p2)"

subsection \<open>The asynchronous handlers, one definition for each stretch between two awaits\<close>

text \<open>
  \<^verbatim>\<open>startCapture\<close>: the request for the camera; its rejection (the \<^verbatim>\<open>catch\<close> block); its
  grant; the end of the wait for the video to play, where \<open>r\<close> is the message of the error
  if \<^verbatim>\<open>play()\<close> was rejected; the end of the fixed wait of 500 ms.
\<close>

definition startCapture_request :: "Page \<Rightarrow> Page" where
  "startCapture_request p = addLog ''Requesting camera access...'' LogInfo p"

definition startCapture_rejected :: "string \<Rightarrow> Page \<Rightarrow> Page" where
  "startCapture_rejected msg p =
     perform [Alert (''Failed to start camera: '' @ msg)]
       (addLog (''Error starting capture: '' @ msg) LogError p)"

definition startCapture_granted :: "MediaStream \<Rightarrow> Page \<Rightarrow> Page" where
  "startCapture_granted stream p =
     (case videoRef p of
        None \<Rightarrow> addLog ''Video element not found'' LogError p
      | Some video \<Rightarrow>
          p\<lparr>localStream := Some stream, videoRef := Some (video\<lparr>srcObject := Some stream\<rparr>)\<rparr>)"

definition startCapture_playing :: "string option \<Rightarrow> Fault \<Rightarrow> Page \<Rightarrow> Page" where
  "startCapture_playing r f p =
     (let p1 = (case r of
                  None \<Rightarrow> addLog ''Video started playing'' LogSuccess p
                | Some err \<Rightarrow> addLog (''Error playing video: '' @ err) LogError p);
          p2 = addLog ''Camera access granted'' LogSuccess p1;
          p3 = dispatch StartSessionRequest p2
      in case tryWs (startSession f Camera) p3 of
           (q, None) \<Rightarrow> q
         | (q, Some msg) \<Rightarrow> startCapture_rejected msg q)"

definition startCapture_resume :: "Encode \<Rightarrow> Fault \<Rightarrow> Page \<Rightarrow> Page" where
  "startCapture_resume enc f p =
     commit enc f (addLog ''Started capturing frames'' LogSuccess (p\<lparr>isCapturing := True\<rparr>))"

text \<open>\<^verbatim>\<open>handleVideoUpload\<close>, for a chosen file with its name and its object URL.\<close>

definition handleVideoUpload_file :: "string \<Rightarrow> string \<Rightarrow> Page \<Rightarrow> Page" where
  "handleVideoUpload_file name url p =
     (let p1 = addLog (''Loading video file: '' @ name) LogInfo p in
      case videoRef p1 of
        None \<Rightarrow> addLog ''Video element not found'' LogError p1
      | Some video \<Rightarrow> p1\<lparr>videoRef := Some (video\<lparr>src := url\<rparr>), isUsingVideo := True\<rparr>)"

definition handleVideoUpload_catch :: "string \<Rightarrow> Page \<Rightarrow> Page" where
  "handleVideoUpload_catch msg p =
     perform [Alert (''Failed to load video: '' @ msg)]
       (addLog (''Error loading video: '' @ msg) LogError p)"

definition handleVideoUpload_playing :: "string option \<Rightarrow> Fault \<Rightarrow> Page \<Rightarrow> Page" where
  "handleVideoUpload_playing r f p =
     (let p1 = (case r of
                  None \<Rightarrow> addLog ''Video loaded and playing'' LogSuccess p
                | Some err \<Rightarrow> addLog (''Error playing video: '' @ err) LogError p);
          p2 = dispatch StartSessionRequest p1
      in case tryWs (startSession f File) p2 of
           (q, None) \<Rightarrow> q
         | (q, Some msg) \<Rightarrow> handleVideoUpload_catch msg q)"

definition handleVideoUpload_resume :: "Encode \<Rightarrow> Fault \<Rightarrow> Page \<Rightarrow> Page" where
  "handleVideoUpload_resume enc f p =
     commit enc f
       (addLog ''Started capturing frames from video'' LogSuccess (p\<lparr>isCapturing := True\<rparr>))"

subsection \<open>The handlers of the server events\<close>

definition onConnected :: "Page \<Rightarrow> Page" where
  "onConnected p = dispatch HandleConnected (addLog ''WebSocket connected'' LogSuccess p)"

definition onSessionStarted :: "string \<Rightarrow> Page \<Rightarrow> Page" where
  "onSessionStarted sid p =
     dispatch (HandleSessionStarted sid) (addLog (''Session started: '' @ sid) LogSuccess p)"

text \<open>
  \<^verbatim>\<open>Math.round(1000 / timeDiff)\<close> for a positive integer \<open>timeDiff\<close> is
  \<open>(2000 + timeDiff) div (2 * timeDiff)\<close>; \<open>now\<close> is \<^verbatim>\<open>Date.now()\<close>.
\<close>

definition onFrameProcessed :: "int \<Rightarrow> FrameProcessedPayload \<Rightarrow> Page \<Rightarrow> Page" where
  "onFrameProcessed now d p =
     (let p1 = dispatch (HandleFrameProcessed d) p;
          p2 = p1\<lparr>frameCount := frame_count d\<rparr>;
          timeDiff = now - lastFrameTimeRef p2;
          p3 = (if timeDiff > 0 then p2\<lparr>fps := (2000 + timeDiff) div (2 * timeDiff)\<rparr> else p2)
      in p3\<lparr>lastFrameTimeRef := now\<rparr>)"

definition onBackgroundSaved :: "string \<Rightarrow> BackgroundSavedPayload \<Rightarrow> Page \<Rightarrow> Page" where
  "onBackgroundSaved now d p =
     dispatch (HandleBackgroundSaved now d) (addLog ''Background saved successfully'' LogSuccess p)"

definition onBackgroundUpdated :: "string \<Rightarrow> Page \<Rightarrow> Page" where
  "onBackgroundUpdated msg p =
     dispatch (HandleBackgroundUpdated msg) (addLog ''Background updated'' LogSuccess p)"

definition onError :: "string \<Rightarrow> Page \<Rightarrow> Page" where
  "onError msg p = dispatch (HandleWebSocketError msg) (addLog (''Error: '' @ msg) LogError p)"

subsection \<open>The events of the socket\<close>

text \<open>
  \<^verbatim>\<open>connect\<close> resolves the promise of \<^verbatim>\<open>connect()\<close>, after which \<^verbatim>\<open>connectToWebSocket\<close>
  goes on; \<^verbatim>\<open>connect_error\<close> rejects it, which enters the \<^verbatim>\<open>catch\<close> block; a promise
  is settled once. \<^verbatim>\<open>disconnect\<close> is the drop of the transport: the service stops its own
  frame capture, and nothing is dispatched to the store.
\<close>

definition socketConnect :: "string \<Rightarrow> Page \<Rightarrow> Page" where
  "socketConnect sid p =
     (case socket (ws p) of
        None \<Rightarrow> p
      | Some k \<Rightarrow>
          (let p1 = p\<lparr>ws := (ws p)\<lparr>socket := Some (k\<lparr>connected := True, sock_id := Some sid\<rparr>)\<rparr>\<rparr> in
           if connectPending p1
           then addLog ''Connected to server'' LogSuccess
                  (dispatch HandleConnected (p1\<lparr>connectPending := False\<rparr>))
           else p1))"

definition socketConnectError :: "Page \<Rightarrow> Page" where
  "socketConnectError p =
     (case socket (ws p) of
        None \<Rightarrow> p
      | Some k \<Rightarrow>
          if connectPending p
          then addLog ''Failed to connect to server'' LogError
                 (dispatch (HandleWebSocketError ''Failed to connect to server'')
                    (dispatch (SetConnectionStatus ConnError) (p\<lparr>connectPending := False\<rparr>)))
          else p)"

definition socketDisconnect :: "Page \<Rightarrow> Page" where
  "socketDisconnect p =
     (case socket (ws p) of
        None \<Rightarrow> p
      | Some k \<Rightarrow>
          callWs stopFrameCapture
            (p\<lparr>ws := (ws p)\<lparr>socket := Some (k\<lparr>connected := False, sock_id := None\<rparr>)\<rparr>\<rparr>))"

subsection \<open>Mounting and unmounting\<close>

text \<open>
  Mounting gives the component fresh state and refs and runs the setup effect: the status
  goes to connecting and \<^verbatim>\<open>connect()\<close> is called. The store and the service singleton
  outlive the component.
\<close>

definition mount :: "int \<Rightarrow> Page \<Rightarrow> Page" where
  "mount now p =
     (let p0 = renderView
                 (p\<lparr>isCapturing := False, localStream := None, frameCount := 0, fps := 0,
                    logs := [], isUsingVideo := False, videoRef := None,
                    captureIntervalRef := None, lastFrameTimeRef := now,
                    isCapturingRef := False, connectPending := False, loopCleanup := False\<rparr>);
          p1 = addLog ''Setting up WebSocket connection...'' LogInfo p0;
          p2 = dispatch (SetConnectionStatus Connecting) p1
      in case connect (ws p2) of
           (True, w) \<Rightarrow> addLog ''Connected to server'' LogSuccess (dispatch HandleConnected (p2\<lparr>ws := w\<rparr>))
         | (False, w) \<Rightarrow> p2\<lparr>ws := w, connectPending := True\<rparr>)"

text \<open>
  Unmounting runs the cleanup of the setup effect, whose \<^verbatim>\<open>stopCapture\<close> is the closure of
  the first render (no local stream, \<open>isUsingVideo\<close> false), and then the cleanup of the
  capture effect if there is one. The cleanup has no \<^verbatim>\<open>try\<close>. The calls of \<^verbatim>\<open>off\<close> change
  nothing in this state.
\<close>

definition unmount :: "Fault \<Rightarrow> Page \<Rightarrow> Page" where
  "unmount f p =
     (let p1 = addLog ''Cleaning up WebSocket'' LogInfo p;
          p3 = (case stopCapture f None False p1 of
                  (p2, Some msg) \<Rightarrow> perform [Uncaught msg] p2
                | (p2, None) \<Rightarrow> uncaught (tryWs (disconnect f) p2))
      in if loopCleanup p3 then (captureEffectCleanup p3)\<lparr>loopCleanup := False\<rparr> else p3)"

subsection \<open>The buttons\<close>

text \<open>
  The saved view (\<open>savedBackground\<close> not null) shows the buttons to proceed and to redo; the
  other view shows the five controls, each with its \<^verbatim>\<open>disabled\<close> condition. A click on a
  button that is not shown or is disabled calls no handler.
\<close>

definition savedView :: "Page \<Rightarrow> bool" where
  "savedView p = (savedBackground (store p) \<noteq> None)"

definition startCameraEnabled :: "Page \<Rightarrow> bool" where
  "startCameraEnabled p =
     (\<not> savedView p \<and>
      \<not> (isCapturing p \<or> connectionStatus (store p) \<noteq> Connected \<or> isUsingVideo p))"

definition uploadEnabled :: "Page \<Rightarrow> bool" where
  "uploadEnabled p =
     (\<not> savedView p \<and> \<not> (isCapturing p \<or> connectionStatus (store p) \<noteq> Connected))"

definition stopEnabled :: "Page \<Rightarrow> bool" where
  "stopEnabled p = (\<not> savedView p \<and> \<not> (\<not> isCapturing p))"

definition saveEnabled :: "Page \<Rightarrow> bool" where
  "saveEnabled p = (\<not> savedView p \<and> \<not> (\<not> hasBackground (store p) \<or> isLoading (store p)))"

definition updateEnabled :: "Page \<Rightarrow> bool" where
  "updateEnabled p = (\<not> savedView p \<and> \<not> (\<not> isCapturing p))"

definition clickSave :: "Fault \<Rightarrow> Page \<Rightarrow> Page" where
  "clickSave f p = (if saveEnabled p then handleSaveBackground f p else p)"

text \<open>
  The three handlers below leave \<open>isCapturing\<close> false, so the capture effect that follows
  does not call the loop: \<open>commit\<close> gets \<open>NoContext\<close> and \<open>NoFault\<close>. The handler of the
  stop button is \<^verbatim>\<open>stopCapture\<close> itself, without a \<^verbatim>\<open>try\<close>.
\<close>

definition clickStop :: "Fault \<Rightarrow> Page \<Rightarrow> Page" where
  "clickStop f p =
     (if stopEnabled p
      then commit NoContext NoFault
             (uncaught (stopCapture f (localStream p) (isUsingVideo p) p))
      else p)"

definition clickProceed :: "Fault \<Rightarrow> Page \<Rightarrow> Page" where
  "clickProceed f p =
     (if savedView p then commit NoContext NoFault (handleProceedToCalibration f p) else p)"

definition clickRedo :: "Fault \<Rightarrow> Page \<Rightarrow> Page" where
  "clickRedo f p =
     (if savedView p then renderView (commit NoContext NoFault (handleRedoBackground f p))
      else p)"

subsection \<open>The whole page as a transition system\<close>

datatype Event =
    Mount int
  | Unmount Fault
  | SocketConnect string
  | SocketConnectError
  | SocketDisconnect
  | ServerConnected
  | ServerSessionStarted string
  | ServerFrameProcessed int FrameProcessedPayload
  | ServerBackgroundSaved string BackgroundSavedPayload
  | ServerBackgroundUpdated string
  | ServerError string
  | VideoReadyState nat
  | ClickStartCamera
  | UserMediaRejected string
  | UserMediaGranted MediaStream
  | CameraPlaying "string option" Fault
  | CameraWaitElapsed Encode Fault
  | FileChosen string string
  | FilePlaying "string option" Fault
  | FileWaitElapsed Encode Fault
  | ClickStop Fault
  | ClickSave Fault
  | ClickUpdate Encode Fault
  | ClickProceed Fault
  | ClickRedo Fault
  | TimerFires nat Encode Fault

text \<open>
  A server event runs its handler in every state: the handlers are registered on the
  socket object when the page mounts, and they stay registered on a socket that the
  service has forgotten. A timer that fires calls \<^verbatim>\<open>captureLoop\<close>, if it is still pending.
  \<open>VideoReadyState\<close> is the browser changing the \<^verbatim>\<open>readyState\<close> of the video element.
\<close>

fun step :: "Page \<Rightarrow> Event \<Rightarrow> Page" where
  "step p (Mount now) = mount now p"
| "step p (Unmount f) = unmount f p"
| "step p (SocketConnect sid) = socketConnect sid p"
| "step p SocketConnectError = socketConnectError p"
| "step p SocketDisconnect = socketDisconnect p"
| "step p ServerConnected = onConnected p"
| "step p (ServerSessionStarted sid) = onSessionStarted sid p"
| "step p (ServerFrameProcessed now d) = onFrameProcessed now d p"
| "step p (ServerBackgroundSaved now d) = renderView (onBackgroundSaved now d p)"
| "step p (ServerBackgroundUpdated msg) = onBackgroundUpdated msg p"
| "step p (ServerError msg) = onError msg p"
| "step p (VideoReadyState n) =
     (case videoRef p of None \<Rightarrow> p | Some video \<Rightarrow> p\<lparr>videoRef := Some (video\<lparr>readyState := n\<rparr>)\<rparr>)"
| "step p ClickStartCamera = (if startCameraEnabled p then startCapture_request p else p)"
| "step p (UserMediaRejected msg) = startCapture_rejected msg p"
| "step p (UserMediaGranted stream) = startCapture_granted stream p"
| "step p (CameraPlaying r f) = startCapture_playing r f p"
| "step p (CameraWaitElapsed enc f) = startCapture_resume enc f p"
| "step p (FileChosen name url) = (if uploadEnabled p then handleVideoUpload_file name url p else p)"
| "step p (FilePlaying r f) = handleVideoUpload_playing r f p"
| "step p (FileWaitElapsed enc f) = handleVideoUpload_resume enc f p"
| "step p (ClickStop f) = clickStop f p"
| "step p (ClickSave f) = clickSave f p"
| "step p (ClickUpdate enc f) = (if updateEnabled p then handleUpdateBackground enc f p else p)"
| "step p (ClickProceed f) = clickProceed f p"
| "step p (ClickRedo f) = clickRedo f p"
| "step p (TimerFires i enc f) =
     (if i \<in> set (timers p) then captureLoop enc f (p\<lparr>timers := removeAll i (timers p)\<rparr>) else p)"

definition run :: "Page \<Rightarrow> Event list \<Rightarrow> Page" where
  "run p evs = foldl step p evs"

text \<open>The page before its first mount: the initial store, no socket, nothing pending.\<close>

definition initialPage :: Page where
  "initialPage =
     \<lparr> store = initialState,
       ws = \<lparr>socket = None, frameInterval = None, videoElement = None\<rparr>,
       isCapturing = False, localStream = None, frameCount = 0, fps = 0, logs = [],
       isUsingVideo = False, videoRef = None, captureIntervalRef = None,
       lastFrameTimeRef = 0, isCapturingRef = False, timers = [], nextTimer = 0,
       connectPending = False, loopCleanup = False, effects = [] \<rparr>"

text \<open>The effects that a handler adds to the trace.\<close>

definition newEffects :: "Page \<Rightarrow> Page \<Rightarrow> Effect list" where
  "newEffects p p' = drop (length (effects p)) (effects p')"

section \<open>Auxiliary notions for the properties\<close>

text \<open>The actions that assign to \<open>savedBackground\<close>.\<close>

fun writesSavedBackground :: "Action \<Rightarrow> bool" where
  "writesSavedBackground (HandleBackgroundSaved now p) = True"
| "writesSavedBackground ClearSavedBackground = True"
| "writesSavedBackground ResetAll = True"
| "writesSavedBackground a = False"

text \<open>A run of \<^verbatim>\<open>frame_processed\<close> events, dispatched in order.\<close>

definition frameEvents :: "BackgroundSelectionState \<Rightarrow> FrameProcessedPayload list \<Rightarrow> BackgroundSelectionState" where
  "frameEvents s ps = dispatchAll s (map HandleFrameProcessed ps)"

text \<open>
  The effects of the first two steps of a teardown: cancelling the pending timeout of the
  capture loop, and stopping the tracks of the media stream.
\<close>

definition cancelLoopEffects :: "Page \<Rightarrow> Effect list" where
  "cancelLoopEffects p = (case captureIntervalRef p of None \<Rightarrow> [] | Some i \<Rightarrow> [ClearTimeout i])"

definition releaseMediaEffects :: "MediaStream option \<Rightarrow> Effect list" where
  "releaseMediaEffects ls = (case ls of None \<Rightarrow> [] | Some tracks \<Rightarrow> map TrackStop tracks)"

text \<open>The effects of the last two steps: the notification and the closing of the socket.\<close>

definition endAndCloseEffects :: "WebSocketService \<Rightarrow> Effect list" where
  "endAndCloseEffects w =
     (if isConnected w then [Emit (End_session (socketId w)), SocketClose] else [])"

text \<open>Redo gives back the object URL of an uploaded video, if the element is there.\<close>

definition revokeEffects :: "Page \<Rightarrow> Effect list" where
  "revokeEffects p =
     (case videoRef p of
        None \<Rightarrow> []
      | Some video \<Rightarrow>
          if isUsingVideo p \<and> take 5 (src video) = ''blob:'' then [RevokeObjectURL (src video)]
          else [])"

subsection \<open>Runs of the page used as concrete inputs\<close>

text \<open>
  The page is mounted, the socket connects with identifier \<open>abc\<close>, the camera is started and
  granted, the video plays, the start request is sent and the video has a frame ready. No
  \<^verbatim>\<open>session_started\<close> has arrived.
\<close>

definition cameraStarting :: Page where
  "cameraStarting =
     run initialPage
       [Mount 0, SocketConnect ''abc'', ClickStartCamera, UserMediaGranted [0],
        CameraPlaying None NoFault, VideoReadyState 4]"

text \<open>The same run, followed by the acknowledgment for session \<open>s1\<close>.\<close>

definition sessionStarted :: Page where
  "sessionStarted = step cameraStarting (ServerSessionStarted ''s1'')"

text \<open>Then the wait of 500 ms ends and the first tick emits a frame.\<close>

definition capturing :: Page where
  "capturing = step sessionStarted (CameraWaitElapsed (Encoded ''jpeg1'') NoFault)"

text \<open>
  Then the server reports a processed frame with a background, the user saves, and the
  server acknowledges the save.
\<close>

definition backgroundSaved :: Page where
  "backgroundSaved =
     run capturing
       [ServerFrameProcessed 1000
          \<lparr>processed_frame = ''out1'', frame_count = 1, status = ''ok'', has_background = True\<rparr>,
        ClickSave NoFault,
        ServerBackgroundSaved ''t1''
          \<lparr>message = ''saved'', background_image = ''img1'', session_id = ''s1'',
           metadata = None\<rparr>]"

text \<open>
  The page is mounted and the socket has not yet reported \<^verbatim>\<open>connect\<close>: the service holds
  a socket that is not connected.
\<close>

definition connecting :: Page where
  "connecting = step initialPage (Mount 0)"

text \<open>
  A run with an uploaded video instead of the camera: no media stream is held. The session
  is acknowledged and the loop is running.
\<close>

definition fileCapturing :: Page where
  "fileCapturing =
     run initialPage
       [Mount 0, SocketConnect ''abc'', FileChosen ''clip.mp4'' ''blob:clip'',
        FilePlaying None NoFault, VideoReadyState 4, ServerSessionStarted ''s1'',
        FileWaitElapsed (Encoded ''jpeg1'') NoFault]"

text \<open>
  A processed frame with a background arrives although no session was acknowledged: the
  save button is enabled and the store holds no session identifier.
\<close>

definition backgroundWithoutSession :: Page where
  "backgroundWithoutSession =
     run initialPage
       [Mount 0, SocketConnect ''abc'',
        ServerFrameProcessed 1000
          \<lparr>processed_frame = ''out1'', frame_count = 1, status = ''ok'', has_background = True\<rparr>]"


section \<open>Auxiliary lemmas\<close>

lemmas reducer_defs =
  setInputMode_def setSelectedFileName_def setLoading_def clearError_def clearSuccess_def
  setConnectionStatus_def handleConnected_def handleDisconnected_def handleSessionStarted_def
  handleFrameProcessed_def handleBackgroundSaved_def handleBackgroundUpdated_def
  handleWebSocketError_def startSessionRequest_def saveBackgroundRequest_def resetSession_def
  clearSavedBackground_def resetAll_def

lemmas ws_defs = isConnected_def emit_def startSession_def saveBackground_def
  updateBackground_def socketId_def endSession_def stopFrameCapture_def disconnect_def
  connect_def socketFault_def

lemmas page_defs = addLog_def dispatch_def perform_def callWs_def tryWs_def uncaught_def
  setTimeoutCaptureLoop_def clearTimeout_def captureLoop_def captureEffectCleanup_def
  captureEffect_def commit_def newVideo_def renderView_def releaseRaises_def stopCapture_def
  falsy_def handleSaveBackground_def handleUpdateBackground_def
  handleProceedToCalibration_catch_def handleProceedToCalibration_def
  handleRedoBackground_catch_def handleRedoBackground_reset_def handleRedoBackground_def
  startCapture_request_def startCapture_rejected_def startCapture_granted_def
  startCapture_playing_def startCapture_resume_def handleVideoUpload_file_def
  handleVideoUpload_catch_def handleVideoUpload_playing_def handleVideoUpload_resume_def
  onConnected_def onSessionStarted_def onFrameProcessed_def onBackgroundSaved_def
  onBackgroundUpdated_def onError_def socketConnect_def socketConnectError_def
  socketDisconnect_def mount_def unmount_def savedView_def startCameraEnabled_def
  uploadEnabled_def stopEnabled_def saveEnabled_def updateEnabled_def clickSave_def
  clickStop_def clickProceed_def clickRedo_def

lemmas eval_defs = page_defs ws_defs reducer_defs run_def initialPage_def initialState_def
  newEffects_def HAVE_ENOUGH_DATA_def Let_def cancelLoopEffects_def releaseMediaEffects_def
  endAndCloseEffects_def revokeEffects_def

subsection \<open>The runs, evaluated\<close>

lemma connecting_eval:
  "connecting =
     initialPage
       \<lparr> store := initialState\<lparr>connectionStatus := Connecting\<rparr>,
         ws := \<lparr>socket = Some \<lparr>connected = False, sock_id = None\<rparr>,
                frameInterval = None, videoElement = None\<rparr>,
         logs := [(''Setting up WebSocket connection...'', LogInfo)],
         videoRef := Some newVideo, connectPending := True \<rparr>"
  by (simp add: connecting_def eval_defs)

lemma cameraStarting_eval:
  "cameraStarting =
     \<lparr> store = initialState\<lparr>isLoading := True, connectionStatus := Connected,
                 processingStatus := ''Starting session...''\<rparr>,
       ws = \<lparr>socket = Some \<lparr>connected = True, sock_id = Some ''abc''\<rparr>,
              frameInterval = None, videoElement = None\<rparr>,
       isCapturing = False, localStream = Some [0], frameCount = 0, fps = 0,
       logs = [(''Setting up WebSocket connection...'', LogInfo),
               (''Connected to server'', LogSuccess),
               (''Requesting camera access...'', LogInfo),
               (''Video started playing'', LogSuccess),
               (''Camera access granted'', LogSuccess)],
       isUsingVideo = False,
       videoRef = Some \<lparr>readyState = 4, videoWidth = 0, videoHeight = 0,
                         srcObject = Some [0], src = []\<rparr>,
       captureIntervalRef = None, lastFrameTimeRef = 0, isCapturingRef = False,
       timers = [], nextTimer = 0, connectPending = False, loopCleanup = False,
       effects = [Emit (Start_session Camera)] \<rparr>"
  by (simp add: cameraStarting_def eval_defs)

lemma sessionStarted_eval:
  "sessionStarted =
     cameraStarting
       \<lparr> store := initialState\<lparr>sessionId := Some ''s1'', isSessionActive := True,
                  hasStartedProcessing := True, connectionStatus := Connected,
                  processingStatus := ''Session started''\<rparr>,
         logs := logs cameraStarting @ [(''Session started: s1'', LogSuccess)] \<rparr>"
  by (simp add: sessionStarted_def cameraStarting_eval eval_defs)

lemma capturing_eval:
  "capturing =
     sessionStarted
       \<lparr> isCapturing := True, isCapturingRef := True, loopCleanup := True,
         logs := logs sessionStarted @
                 [(''Started capturing frames'', LogSuccess),
                  (''Starting frame capture loop'', LogInfo)],
         captureIntervalRef := Some 0, timers := [0], nextTimer := 1,
         effects := [Emit (Start_session Camera), Emit (Process_frame ''jpeg1''),
                     SetTimeout 0 1000] \<rparr>"
  by (simp add: capturing_def sessionStarted_eval cameraStarting_eval eval_defs)

lemma backgroundSaved_eval:
  "backgroundSaved =
     capturing
       \<lparr> store := (store capturing)
            \<lparr>currentFrame := Some \<lparr>cf_image = ''out1'', cf_frameCount = 1\<rparr>,
             savedBackground := Some \<lparr>sb_image = ''img1'', sb_sessionId = ''s1'',
                                      sb_savedAt = ''t1'', sb_metadata = None\<rparr>,
             isProcessing := True, success := Some ''saved'',
             processingStatus := ''Saving background...'', hasBackground := True\<rparr>,
         frameCount := 1, fps := 1,
         logs := logs capturing @
                 [(''Saving background...'', LogInfo),
                  (''Background saved successfully'', LogSuccess)],
         videoRef := None, lastFrameTimeRef := 1000,
         effects := effects capturing @ [Emit Save_background] \<rparr>"
  by (simp add: backgroundSaved_def capturing_eval sessionStarted_eval cameraStarting_eval
      eval_defs)

lemma fileCapturing_fields:
  "localStream fileCapturing = None"
  "isUsingVideo fileCapturing = True"
  "isCapturing fileCapturing = True"
  "captureIntervalRef fileCapturing = Some 0"
  "ws fileCapturing = \<lparr>socket = Some \<lparr>connected = True, sock_id = Some ''abc''\<rparr>,
                         frameInterval = None, videoElement = None\<rparr>"
  "savedBackground (store fileCapturing) = None"
  "isSessionActive (store fileCapturing) = True"
  by (simp_all add: fileCapturing_def eval_defs)

subsection \<open>Fields after the calls of the service\<close>

lemma callWs_alt:
  "callWs g p = p\<lparr>ws := snd (g (ws p)), effects := effects p @ fst (g (ws p))\<rparr>"
  by (simp add: callWs_def split: prod.split)

lemma tryWs_alt:
  "tryWs g p =
     (p\<lparr>ws := serviceOf (g (ws p)), effects := effects p @ effectsOf (g (ws p))\<rparr>,
      raisedBy (g (ws p)))"
  by (simp add: tryWs_def split: prod.split)

lemma isConnected_stopFrameCapture:
  "isConnected (snd (stopFrameCapture w)) = isConnected w"
  "socketId (snd (stopFrameCapture w)) = socketId w"
  "fst (stopFrameCapture (snd (stopFrameCapture w))) = []"
  by (simp_all add: isConnected_def socketId_def stopFrameCapture_def split: option.split)

lemma emit_cases:
  "\<not> isConnected w \<Longrightarrow> emit f ev w = ([ConsoleError ''Socket not connected''], w, None)"
  "isConnected w \<Longrightarrow> emit (EmitThrows m) ev w = ([], w, Some m)"
  "isConnected w \<Longrightarrow> emit NoFault ev w = ([Emit ev], w, None)"
  "isConnected w \<Longrightarrow> emit (TrackStopThrows m) ev w = ([Emit ev], w, None)"
  "isConnected w \<Longrightarrow> emit (CloseThrows m) ev w = ([Emit ev], w, None)"
  by (simp_all add: emit_def)

lemma disconnect_not_connected:
  "\<not> isConnected w \<Longrightarrow>
     disconnect f w = (fst (stopFrameCapture w), (snd (stopFrameCapture w))\<lparr>socket := None\<rparr>, None)"
  by (simp add: disconnect_def Let_def case_prod_unfold isConnected_stopFrameCapture)

lemma disconnect_connected:
  "isConnected w \<Longrightarrow>
     disconnect f w =
       (case f of
          EmitThrows m \<Rightarrow> (fst (stopFrameCapture w), snd (stopFrameCapture w), Some m)
        | CloseThrows m \<Rightarrow>
            (fst (stopFrameCapture w) @ [Emit (End_session (socketId w))],
             snd (stopFrameCapture w), Some m)
        | _ \<Rightarrow>
            (fst (stopFrameCapture w) @ [Emit (End_session (socketId w)), SocketClose],
             (snd (stopFrameCapture w))\<lparr>socket := None\<rparr>, None))"
  by (cases f)
     (simp_all add: disconnect_def Let_def case_prod_unfold endSession_def emit_cases
        isConnected_stopFrameCapture)

subsection \<open>Fields after the handlers\<close>

lemma stopCapture_returns:
  "releaseRaises f ls = None \<Longrightarrow>
     effects (fst (stopCapture f ls iuv p)) =
       effects p @ cancelLoopEffects p @ releaseMediaEffects ls @ fst (stopFrameCapture (ws p))"
  "releaseRaises f ls = None \<Longrightarrow> ws (fst (stopCapture f ls iuv p)) = snd (stopFrameCapture (ws p))"
  "releaseRaises f ls = None \<Longrightarrow> snd (stopCapture f ls iuv p) = None"
  "releaseRaises f ls = None \<Longrightarrow>
     videoRef (fst (stopCapture f ls iuv p)) =
       (case videoRef p of None \<Rightarrow> None
        | Some video \<Rightarrow> Some (if iuv then video else video\<lparr>srcObject := None\<rparr>))"
  "releaseRaises f ls = None \<Longrightarrow>
     localStream (fst (stopCapture f ls iuv p)) = (case ls of None \<Rightarrow> localStream p | Some ts \<Rightarrow> None)"
  by (simp_all add: stopCapture_def Let_def addLog_def clearTimeout_def perform_def callWs_alt
      cancelLoopEffects_def releaseMediaEffects_def split: option.split)

lemma stopCapture_raises:
  "releaseRaises f ls = Some m \<Longrightarrow>
     effects (fst (stopCapture f ls iuv p)) = effects p @ cancelLoopEffects p"
  "releaseRaises f ls = Some m \<Longrightarrow> ws (fst (stopCapture f ls iuv p)) = ws p"
  "releaseRaises f ls = Some m \<Longrightarrow> snd (stopCapture f ls iuv p) = Some m"
  "releaseRaises f ls = Some m \<Longrightarrow> localStream (fst (stopCapture f ls iuv p)) = localStream p"
  by (simp_all add: stopCapture_def Let_def addLog_def clearTimeout_def
      cancelLoopEffects_def split: option.split)

lemma stopCapture_fields:
  "isCapturing (fst (stopCapture f ls iuv p)) = False"
  "captureIntervalRef (fst (stopCapture f ls iuv p)) = None"
  "store (fst (stopCapture f ls iuv p)) = store p"
  "isCapturingRef (fst (stopCapture f ls iuv p)) = isCapturingRef p"
  "loopCleanup (fst (stopCapture f ls iuv p)) = loopCleanup p"
  "frameCount (fst (stopCapture f ls iuv p)) = frameCount p"
  by (simp_all add: stopCapture_def Let_def addLog_def clearTimeout_def perform_def callWs_alt
      split: option.split)

lemma uncaught_fields:
  "store (uncaught r) = store (fst r)"
  "isCapturing (uncaught r) = isCapturing (fst r)"
  "captureIntervalRef (uncaught r) = captureIntervalRef (fst r)"
  "ws (uncaught r) = ws (fst r)"
  "effects (uncaught r) =
     effects (fst r) @ (case snd r of None \<Rightarrow> [] | Some msg \<Rightarrow> [Uncaught msg])"
  by (cases r; cases "snd r"; simp add: uncaught_def perform_def)+

lemma commit_stopped:
  "\<not> isCapturing p \<Longrightarrow> captureIntervalRef p = None \<Longrightarrow> effects (commit enc f p) = effects p"
  "\<not> isCapturing p \<Longrightarrow> captureIntervalRef p = None \<Longrightarrow> ws (commit enc f p) = ws p"
  by (simp_all add: commit_def captureEffect_def captureEffectCleanup_def)

lemma handleProceedToCalibration_alt:
  "handleProceedToCalibration f p =
     (let r = stopCapture f (localStream p) (isUsingVideo p)
                (addLog ''Ending session and proceeding to calibration...'' LogInfo p)
      in case snd r of
           Some msg \<Rightarrow> handleProceedToCalibration_catch msg (fst r)
         | None \<Rightarrow>
             (let d = tryWs (disconnect f) (fst r)
              in case snd d of
                   Some msg \<Rightarrow> handleProceedToCalibration_catch msg (fst d)
                 | None \<Rightarrow>
                     perform [Navigate ''/calibration'']
                       (addLog ''WebSocket disconnected'' LogInfo
                          (dispatch HandleDisconnected (fst d)))))"
  by (simp add: handleProceedToCalibration_def Let_def split: prod.split option.split)

lemma handleRedoBackground_alt:
  "handleRedoBackground f p =
     (let r = stopCapture f (localStream p) (isUsingVideo p)
                (addLog ''Redoing background selection...'' LogInfo p)
      in case snd r of
           Some msg \<Rightarrow> handleRedoBackground_catch msg (fst r)
         | None \<Rightarrow>
             if isConnected (ws (fst r))
             then (let d = tryWs (disconnect f) (fst r)
                   in case snd d of
                        Some msg \<Rightarrow> handleRedoBackground_catch msg (fst d)
                      | None \<Rightarrow>
                          handleRedoBackground_reset (isUsingVideo p)
                            (addLog ''Session ended'' LogSuccess (fst d)))
             else handleRedoBackground_reset (isUsingVideo p) (fst r))"
  by (simp add: handleRedoBackground_def Let_def split: prod.split option.split)

lemma catch_fields:
  "effects (handleProceedToCalibration_catch msg q) = effects q @ [Navigate ''/calibration'']"
  "store (handleProceedToCalibration_catch msg q) = store q"
  "ws (handleProceedToCalibration_catch msg q) = ws q"
  "isCapturing (handleProceedToCalibration_catch msg q) = isCapturing q"
  "captureIntervalRef (handleProceedToCalibration_catch msg q) = captureIntervalRef q"
  "effects (handleRedoBackground_catch msg q) = effects q"
  "store (handleRedoBackground_catch msg q) = resetSession (clearSavedBackground (store q))"
  "ws (handleRedoBackground_catch msg q) = ws q"
  "isCapturing (handleRedoBackground_catch msg q) = isCapturing q"
  "captureIntervalRef (handleRedoBackground_catch msg q) = captureIntervalRef q"
  "frameCount (handleRedoBackground_catch msg q) = 0"
  "fps (handleRedoBackground_catch msg q) = 0"
  by (simp_all add: handleProceedToCalibration_catch_def handleRedoBackground_catch_def
      Let_def perform_def addLog_def dispatch_def)

lemma reset_fields:
  "effects (handleRedoBackground_reset iuv q) =
     effects q @ (case videoRef q of
                    None \<Rightarrow> []
                  | Some video \<Rightarrow>
                      if iuv \<and> take 5 (src video) = ''blob:'' then [RevokeObjectURL (src video)]
                      else [])"
  "store (handleRedoBackground_reset iuv q) = resetSession (clearSavedBackground (store q))"
  "ws (handleRedoBackground_reset iuv q) = ws q"
  "isCapturing (handleRedoBackground_reset iuv q) = isCapturing q"
  "captureIntervalRef (handleRedoBackground_reset iuv q) = captureIntervalRef q"
  "frameCount (handleRedoBackground_reset iuv q) = 0"
  "fps (handleRedoBackground_reset iuv q) = 0"
  by (simp_all add: handleRedoBackground_reset_def Let_def perform_def addLog_def dispatch_def
      split: option.split)

lemma basic_fields:
  "store (addLog m t p) = store p"
  "store (perform es p) = store p"
  "store (callWs g p) = store p"
  "store (fst (tryWs h p)) = store p"
  "store (setTimeoutCaptureLoop d p) = store p"
  "store (clearTimeout i p) = store p"
  "store (renderView p) = store p"
  "store (dispatch a p) = reducer (store p) a"
  "effects (addLog m t p) = effects p"
  "effects (perform es p) = effects p @ es"
  "effects (callWs g p) = effects p @ fst (g (ws p))"
  "effects (fst (tryWs h p)) = effects p @ effectsOf (h (ws p))"
  "effects (setTimeoutCaptureLoop d p) = effects p @ [SetTimeout (nextTimer p) d]"
  "effects (clearTimeout i p) = effects p @ [ClearTimeout i]"
  "effects (renderView p) = effects p"
  "effects (dispatch a p) = effects p"
  "ws (addLog m t p) = ws p"
  "ws (perform es p) = ws p"
  "ws (callWs g p) = snd (g (ws p))"
  "ws (fst (tryWs h p)) = serviceOf (h (ws p))"
  "ws (setTimeoutCaptureLoop d p) = ws p"
  "ws (clearTimeout i p) = ws p"
  "ws (renderView p) = ws p"
  "ws (dispatch a p) = ws p"
  "snd (tryWs h p) = raisedBy (h (ws p))"
  by (simp_all add: addLog_def perform_def callWs_alt tryWs_alt setTimeoutCaptureLoop_def
      Let_def clearTimeout_def renderView_def dispatch_def)

lemma more_fields:
  "isCapturing (addLog m t p) = isCapturing p"
  "isCapturing (perform es p) = isCapturing p"
  "isCapturing (fst (tryWs h p)) = isCapturing p"
  "isCapturing (dispatch a p) = isCapturing p"
  "captureIntervalRef (addLog m t p) = captureIntervalRef p"
  "captureIntervalRef (perform es p) = captureIntervalRef p"
  "captureIntervalRef (fst (tryWs h p)) = captureIntervalRef p"
  "captureIntervalRef (dispatch a p) = captureIntervalRef p"
  "frameCount (addLog m t p) = frameCount p"
  "frameCount (renderView p) = frameCount p"
  "videoRef (addLog m t p) = videoRef p"
  "videoRef (fst (tryWs h p)) = videoRef p"
  "localStream (addLog m t p) = localStream p"
  "cancelLoopEffects (addLog m t p) = cancelLoopEffects p"
  by (simp_all add: addLog_def perform_def tryWs_alt renderView_def dispatch_def
      cancelLoopEffects_def)

lemma proceed_fields:
  "isCapturing (handleProceedToCalibration f p) = False"
  "captureIntervalRef (handleProceedToCalibration f p) = None"
  by (simp_all add: handleProceedToCalibration_alt Let_def catch_fields basic_fields
      more_fields stopCapture_fields split: option.split)

lemma redo_fields:
  "isCapturing (handleRedoBackground f p) = False"
  "captureIntervalRef (handleRedoBackground f p) = None"
  "frameCount (handleRedoBackground f p) = 0"
  "fps (handleRedoBackground f p) = 0"
  by (simp_all add: handleRedoBackground_alt Let_def catch_fields reset_fields basic_fields
      more_fields stopCapture_fields split: option.split)

lemma redo_store:
  "store (handleRedoBackground f p) = resetSession (clearSavedBackground (store p))"
  by (simp add: handleRedoBackground_alt Let_def catch_fields reset_fields basic_fields
      more_fields stopCapture_fields split: option.split)

lemma proceed_store:
  "savedBackground (store (handleProceedToCalibration f p)) = savedBackground (store p)"
  by (simp add: handleProceedToCalibration_alt Let_def catch_fields basic_fields
      more_fields stopCapture_fields handleDisconnected_def split: option.split)

lemma releaseRaises_NoFault [simp]: "releaseRaises NoFault ls = None"
  by (simp add: releaseRaises_def)

lemma proceed_store_NoFault:
  "store (handleProceedToCalibration NoFault p) = handleDisconnected (store p)"
proof (cases "isConnected (ws p)")
  case True
  then show ?thesis
    by (simp add: handleProceedToCalibration_alt Let_def basic_fields more_fields
        stopCapture_fields stopCapture_returns disconnect_connected
        isConnected_stopFrameCapture)
next
  case False
  then show ?thesis
    by (simp add: handleProceedToCalibration_alt Let_def basic_fields more_fields
        stopCapture_fields stopCapture_returns disconnect_not_connected
        isConnected_stopFrameCapture)
qed

lemma releaseRaises_socket [simp]:
  "releaseRaises (EmitThrows m) ls = None"
  "releaseRaises (CloseThrows m) ls = None"
  by (simp_all add: releaseRaises_def)

lemma proceed_effects_release_raises:
  "releaseRaises f (localStream p) = Some m \<Longrightarrow>
     effects (handleProceedToCalibration f p) =
       effects p @ cancelLoopEffects p @ [Navigate ''/calibration'']"
  by (simp add: handleProceedToCalibration_alt Let_def catch_fields basic_fields more_fields
      stopCapture_raises)

lemma proceed_effects_returns:
  assumes "releaseRaises f (localStream p) = None" and "\<not> (isConnected (ws p) \<and> socketFault f)"
  shows "effects (handleProceedToCalibration f p) =
           effects p @ cancelLoopEffects p @ releaseMediaEffects (localStream p)
             @ fst (stopFrameCapture (ws p)) @ endAndCloseEffects (ws p)
             @ [Navigate ''/calibration'']"
proof (cases "isConnected (ws p)")
  case True
  with assms(2) have "\<not> socketFault f" by simp
  with True assms(1) show ?thesis
    by (cases f)
       (simp_all add: handleProceedToCalibration_alt Let_def basic_fields more_fields
          stopCapture_returns disconnect_connected isConnected_stopFrameCapture
          endAndCloseEffects_def socketFault_def)
next
  case False
  with assms(1) show ?thesis
    by (simp add: handleProceedToCalibration_alt Let_def basic_fields more_fields
        stopCapture_returns disconnect_not_connected isConnected_stopFrameCapture
        endAndCloseEffects_def)
qed

lemma proceed_effects_socket_raises:
  assumes "isConnected (ws p)"
  shows "effects (handleProceedToCalibration (EmitThrows m) p) =
           effects p @ cancelLoopEffects p @ releaseMediaEffects (localStream p)
             @ fst (stopFrameCapture (ws p)) @ [Navigate ''/calibration'']"
    and "effects (handleProceedToCalibration (CloseThrows m) p) =
           effects p @ cancelLoopEffects p @ releaseMediaEffects (localStream p)
             @ fst (stopFrameCapture (ws p)) @ [Emit (End_session (socketId (ws p)))]
             @ [Navigate ''/calibration'']"
  using assms
  by (simp_all add: handleProceedToCalibration_alt Let_def basic_fields more_fields catch_fields
      stopCapture_returns disconnect_connected isConnected_stopFrameCapture)

lemma revokeEffects_cong:
  "map_option src (videoRef q) = map_option src (videoRef p) \<Longrightarrow> isUsingVideo q = isUsingVideo p
   \<Longrightarrow> revokeEffects q = revokeEffects p"
  by (cases "videoRef q"; cases "videoRef p"; simp add: revokeEffects_def)

lemma reset_effects:
  "effects (handleRedoBackground_reset iuv q) = effects q @ revokeEffects (q\<lparr>isUsingVideo := iuv\<rparr>)"
  by (cases "videoRef q"; simp add: reset_fields revokeEffects_def)

lemma src_after_stop:
  "releaseRaises f ls = None \<Longrightarrow>
     map_option src (videoRef (fst (stopCapture f ls iuv q))) = map_option src (videoRef q)"
  by (simp add: stopCapture_returns split: option.split)

lemma revoke_after_stop:
  "releaseRaises f ls = None \<Longrightarrow>
     revokeEffects ((fst (stopCapture f ls iuv (addLog m t p)))\<lparr>isUsingVideo := isUsingVideo p\<rparr>)
       = revokeEffects p"
  "releaseRaises f ls = None \<Longrightarrow>
     revokeEffects ((addLog m' t' (fst (tryWs h (fst (stopCapture f ls iuv (addLog m t p))))))
                      \<lparr>isUsingVideo := isUsingVideo p\<rparr>)
       = revokeEffects p"
  by (rule revokeEffects_cong; simp add: src_after_stop more_fields)+

lemma redo_effects_release_raises:
  "releaseRaises f (localStream p) = Some m \<Longrightarrow>
     effects (handleRedoBackground f p) = effects p @ cancelLoopEffects p"
  by (simp add: handleRedoBackground_alt Let_def catch_fields basic_fields more_fields
      stopCapture_raises)

lemma redo_effects_returns:
  assumes "releaseRaises f (localStream p) = None" and "\<not> (isConnected (ws p) \<and> socketFault f)"
  shows "effects (handleRedoBackground f p) =
           effects p @ cancelLoopEffects p @ releaseMediaEffects (localStream p)
             @ fst (stopFrameCapture (ws p)) @ endAndCloseEffects (ws p) @ revokeEffects p"
proof (cases "isConnected (ws p)")
  case True
  with assms(2) have "\<not> socketFault f" by simp
  with True assms(1) show ?thesis
    by (cases f)
       (simp_all add: handleRedoBackground_alt Let_def basic_fields more_fields reset_effects
          stopCapture_returns(1,2,3) disconnect_connected isConnected_stopFrameCapture
          endAndCloseEffects_def socketFault_def revoke_after_stop)
next
  case False
  with assms(1) show ?thesis
    by (simp add: handleRedoBackground_alt Let_def basic_fields more_fields reset_effects
        stopCapture_returns(1,2,3) isConnected_stopFrameCapture endAndCloseEffects_def
        revoke_after_stop)
qed

lemma redo_effects_socket_raises:
  assumes "isConnected (ws p)"
  shows "effects (handleRedoBackground (EmitThrows m) p) =
           effects p @ cancelLoopEffects p @ releaseMediaEffects (localStream p)
             @ fst (stopFrameCapture (ws p))"
    and "effects (handleRedoBackground (CloseThrows m) p) =
           effects p @ cancelLoopEffects p @ releaseMediaEffects (localStream p)
             @ fst (stopFrameCapture (ws p)) @ [Emit (End_session (socketId (ws p)))]"
  using assms
  by (simp_all add: handleRedoBackground_alt Let_def basic_fields more_fields catch_fields
      stopCapture_returns disconnect_connected isConnected_stopFrameCapture)

lemma click_teardown_effects:
  "savedView p \<Longrightarrow> effects (clickProceed f p) = effects (handleProceedToCalibration f p)"
  "savedView p \<Longrightarrow> effects (clickRedo f p) = effects (handleRedoBackground f p)"
  "stopEnabled p \<Longrightarrow>
     effects (clickStop f p) =
       effects (uncaught (stopCapture f (localStream p) (isUsingVideo p) p))"
  by (simp_all add: clickProceed_def clickRedo_def clickStop_def commit_stopped proceed_fields
      redo_fields basic_fields uncaught_fields stopCapture_fields)

subsection \<open>The store under the transitions\<close>

lemma case_outcome:
  "(case r of (q, None) \<Rightarrow> a q | (q, Some msg) \<Rightarrow> b msg q) =
     (case snd r of None \<Rightarrow> a (fst r) | Some msg \<Rightarrow> b msg (fst r))"
  by (cases r; cases "snd r"; simp)

lemma store_captureLoop: "store (captureLoop enc f p) = store p"
  by (simp add: captureLoop_def case_outcome basic_fields split: option.split Encode.split)

lemma store_captureEffectCleanup: "store (captureEffectCleanup p) = store p"
  by (simp add: captureEffectCleanup_def basic_fields split: option.split)

lemma store_commit: "store (commit enc f p) = store p"
  by (simp add: commit_def captureEffect_def store_captureLoop store_captureEffectCleanup
      basic_fields)

lemma store_mount:
  "savedBackground (store (mount now p)) = savedBackground (store p)"
  by (simp add: mount_def Let_def basic_fields connect_def reducer_defs split: prod.split)

lemma store_unmount: "store (unmount f p) = store p"
  by (simp add: unmount_def Let_def case_outcome basic_fields uncaught_fields stopCapture_fields
      store_captureEffectCleanup split: option.split)

lemma only_redo_destroys:
  assumes "\<forall>f. ev \<noteq> ClickRedo f" and "savedBackground (store p) \<noteq> None"
  shows "savedBackground (store (step p ev)) \<noteq> None"
  using assms
  by (cases ev)
     (simp_all add: store_mount store_unmount basic_fields store_commit store_captureLoop
        stopCapture_fields uncaught_fields proceed_store case_outcome
        socketConnect_def socketConnectError_def
        socketDisconnect_def onConnected_def onSessionStarted_def onFrameProcessed_def
        onBackgroundSaved_def onBackgroundUpdated_def onError_def startCapture_request_def
        startCapture_rejected_def startCapture_granted_def startCapture_playing_def
        startCapture_resume_def handleVideoUpload_file_def handleVideoUpload_catch_def
        handleVideoUpload_playing_def
        handleVideoUpload_resume_def handleSaveBackground_def handleUpdateBackground_def
        clickSave_def clickStop_def clickProceed_def reducer_defs Let_def
        split: option.split Encode.split)

subsection \<open>The interval loop of the service is never started\<close>







lemma frameEvents_snoc:
  "frameEvents s (ps @ [p]) = handleFrameProcessed p (frameEvents s ps)"
  by (simp add: frameEvents_def dispatchAll_def)

lemma frameEvents_all_false:
  "\<not> hasBackground s \<Longrightarrow> \<forall>q \<in> set ps. \<not> has_background q \<Longrightarrow> \<not> hasBackground (frameEvents s ps)"
proof (induction ps rule: rev_induct)
  case Nil
  then show ?case by (simp add: frameEvents_def dispatchAll_def)
next
  case (snoc p ps)
  then show ?case by (simp add: frameEvents_snoc handleFrameProcessed_def)
qed

section \<open>The claims\<close>

text \<open>
  C1: the code at the failing input. The claim asks that no frame is emitted before the
  acknowledgment \<^verbatim>\<open>session_started\<close> has been received and applied. In the run
  \<open>cameraStarting\<close> the start request is the only event sent and no acknowledgment has
  arrived: the session is not active and has no identifier. \<^verbatim>\<open>startCapture\<close> waits a fixed
  500 ms under the comment \<^verbatim>\<open>Wait for session to start\<close> and then sets \<open>isCapturing\<close>; the
  capture loop starts and its first tick emits a frame, with the session still not active.
\<close>

theorem frame_emitted_before_session_started:
  "effects cameraStarting = [Emit (Start_session Camera)]
   \<and> \<not> isSessionActive (store cameraStarting)
   \<and> sessionId (store cameraStarting) = None
   \<and> newEffects cameraStarting
         (step cameraStarting (CameraWaitElapsed (Encoded ''jpeg1'') NoFault))
       = [Emit (Process_frame ''jpeg1''), SetTimeout 0 1000]
   \<and> \<not> isSessionActive
         (store (step cameraStarting (CameraWaitElapsed (Encoded ''jpeg1'') NoFault)))"
  by (simp add: cameraStarting_eval eval_defs)

text \<open>
  C2. In every state in which \<open>hasBackground\<close> is false or the session identifier is absent
  (null or empty), the save request of the user, a click on the save button, sends no
  event and changes no state: the store, the service and every other field stay as they
  are, and at most the alert \<open>No active session\<close> is shown. With \<open>hasBackground\<close> false the
  button is disabled and the click does nothing at all; without a session identifier
  \<^verbatim>\<open>handleSaveBackground\<close> only shows the alert.
\<close>

theorem save_click_rejected_without_background_or_session:
  "(\<not> hasBackground (store p) \<or> falsy (sessionId (store p)) \<longrightarrow>
      (step p (ClickSave f) = p
         \<or> step p (ClickSave f) = p\<lparr>effects := effects p @ [Alert ''No active session'']\<rparr>)
      \<and> (\<forall>e. Emit e \<notin> set (newEffects p (step p (ClickSave f))))
      \<and> store (step p (ClickSave f)) = store p
      \<and> ws (step p (ClickSave f)) = ws p)
   \<and> (\<not> hasBackground (store p) \<longrightarrow> step p (ClickSave f) = p)
   \<and> (falsy (sessionId (store p)) \<longrightarrow>
        handleSaveBackground f p = p\<lparr>effects := effects p @ [Alert ''No active session'']\<rparr>)"
  by (auto simp add: clickSave_def saveEnabled_def handleSaveBackground_def perform_def
      newEffects_def)

theorem save_click_rejected_without_background_or_session_witness:
  "\<not> hasBackground (store cameraStarting)
   \<and> step cameraStarting (ClickSave NoFault) = cameraStarting
   \<and> hasBackground (store backgroundWithoutSession)
   \<and> falsy (sessionId (store backgroundWithoutSession))
   \<and> step backgroundWithoutSession (ClickSave NoFault)
       = backgroundWithoutSession
           \<lparr>effects := effects backgroundWithoutSession @ [Alert ''No active session'']\<rparr>
   \<and> store (step backgroundWithoutSession (ClickSave NoFault)) = store backgroundWithoutSession"
proof -
  note T = save_click_rejected_without_background_or_session [of cameraStarting NoFault]
  note U = save_click_rejected_without_background_or_session [of backgroundWithoutSession NoFault]
  have a: "\<not> hasBackground (store cameraStarting)"
    by (simp add: cameraStarting_eval initialState_def)
  have b: "hasBackground (store backgroundWithoutSession)"
      "falsy (sessionId (store backgroundWithoutSession))"
      "saveEnabled backgroundWithoutSession"
    by (simp_all add: backgroundWithoutSession_def eval_defs)
  from b(3) have c: "step backgroundWithoutSession (ClickSave NoFault)
      = handleSaveBackground NoFault backgroundWithoutSession"
    by (simp add: clickSave_def)
  show ?thesis
    using T U a b(1,2) c by simp
qed

text \<open>
  C3, as amended. \<^verbatim>\<open>handleDisconnected\<close>, the action dispatched on the explicit disconnect,
  sets the connection status to disconnected and the flags \<open>isSessionActive\<close> and
  \<open>isProcessing\<close> to false. It keeps \<open>savedBackground\<close>, and it keeps the session identifier
  too: the identifier is not cleared. It is the only action that the handler of the
  explicit end, \<^verbatim>\<open>handleProceedToCalibration\<close>, dispatches when its teardown returns.
  Whether or not that teardown raises, the handler keeps \<open>savedBackground\<close>.
\<close>

theorem handleDisconnected_keeps_session_and_background:
  "connectionStatus (handleDisconnected s) = Disconnected
   \<and> isSessionActive (handleDisconnected s) = False
   \<and> isProcessing (handleDisconnected s) = False
   \<and> savedBackground (handleDisconnected s) = savedBackground s
   \<and> sessionId (handleDisconnected s) = sessionId s
   \<and> store (handleProceedToCalibration NoFault p) = handleDisconnected (store p)
   \<and> savedBackground (store (handleProceedToCalibration f p)) = savedBackground (store p)"
  by (simp add: handleDisconnected_def proceed_store_NoFault proceed_store)

text \<open>
  C3 as stated fails: after a session was started with identifier \<open>s1\<close>, the disconnect
  transition leaves that identifier in the state.
\<close>

theorem handleDisconnected_sessionId_counterexample:
  "sessionId (reducer (reducer initialState (HandleSessionStarted ''s1'')) HandleDisconnected)
     = Some ''s1''"
  by (simp add: handleSessionStarted_def handleDisconnected_def)


text \<open>
  C4, as amended. Every action other than \<^verbatim>\<open>handleBackgroundSaved\<close>,
  \<^verbatim>\<open>clearSavedBackground\<close> and \<^verbatim>\<open>resetAll\<close> leaves \<open>savedBackground\<close> as it was;
  \<^verbatim>\<open>handleBackgroundSaved\<close> replaces it by the artifact of its payload (image, session
  identifier, the time of the save, and the metadata if the payload has any), also when
  one is already held.
\<close>

theorem savedBackground_unchanged_by_other_actions:
  "(\<not> writesSavedBackground a \<longrightarrow> savedBackground (reducer s a) = savedBackground s)
   \<and> savedBackground (reducer s (HandleBackgroundSaved now d))
       = Some \<lparr>sb_image = background_image d, sb_sessionId = session_id d, sb_savedAt = now,
               sb_metadata =
                 (case metadata d of
                    None \<Rightarrow> None
                  | Some m \<Rightarrow> Some \<lparr>md_width = width m, md_height = height m,
                                     md_frameCount = mp_frame_count m\<rparr>)\<rparr>"
  by (cases a) (simp_all add: reducer_defs)

theorem savedBackground_unchanged_by_other_actions_witness:
  "\<not> writesSavedBackground (HandleFrameProcessed
        \<lparr>processed_frame = ''f'', frame_count = 1, status = ''ok'', has_background = True\<rparr>)
   \<and> savedBackground (reducer (reducer initialState (HandleBackgroundSaved ''t1''
        \<lparr>message = ''saved'', background_image = ''img1'', session_id = ''s1'', metadata = None\<rparr>))
        (HandleFrameProcessed
          \<lparr>processed_frame = ''f'', frame_count = 1, status = ''ok'', has_background = True\<rparr>))
     = Some \<lparr>sb_image = ''img1'', sb_sessionId = ''s1'', sb_savedAt = ''t1'', sb_metadata = None\<rparr>"
  using savedBackground_unchanged_by_other_actions
    [where a = "HandleFrameProcessed
          \<lparr>processed_frame = ''f'', frame_count = 1, status = ''ok'', has_background = True\<rparr>"
       and s = "reducer initialState (HandleBackgroundSaved ''t1''
          \<lparr>message = ''saved'', background_image = ''img1'', session_id = ''s1'', metadata = None\<rparr>)"]
  by (simp add: handleBackgroundSaved_def)

text \<open>
  C4 as stated fails: in the state reached from the initial one by a first
  \<^verbatim>\<open>background_saved\<close> event, a second \<^verbatim>\<open>background_saved\<close> event, which is not a
  clear and not a reset, changes \<open>savedBackground\<close>.
\<close>

theorem savedBackground_overwritten_counterexample:
  "savedBackground (dispatchAll initialState [HandleBackgroundSaved ''t1''
        \<lparr>message = ''saved'', background_image = ''img1'', session_id = ''s1'', metadata = None\<rparr>])
     = Some \<lparr>sb_image = ''img1'', sb_sessionId = ''s1'', sb_savedAt = ''t1'', sb_metadata = None\<rparr>
   \<and> savedBackground (reducer (dispatchAll initialState [HandleBackgroundSaved ''t1''
        \<lparr>message = ''saved'', background_image = ''img1'', session_id = ''s1'', metadata = None\<rparr>])
        (HandleBackgroundSaved ''t2''
          \<lparr>message = ''saved'', background_image = ''img2'', session_id = ''s1'', metadata = None\<rparr>))
     = Some \<lparr>sb_image = ''img2'', sb_sessionId = ''s1'', sb_savedAt = ''t2'', sb_metadata = None\<rparr>"
  by (simp add: dispatchAll_def handleBackgroundSaved_def initialState_def)


text \<open>
  C5. In every state, and whether or not its teardown raises, redo leaves
  \<open>savedBackground\<close> null, the frame counters at their start (no current frame, frame count
  and rate 0), the processing status reset, no session identifier and the session not
  active; a click on the redo button of the saved view has this effect on the store.
  Every other transition of the page keeps a saved background: if \<open>savedBackground\<close> is
  not null before it, it is not null after it. (The reducer \<^verbatim>\<open>resetAll\<close> is dispatched by
  no transition.)
\<close>

theorem redo_resets_and_only_redo_clears_saved_background:
  "savedBackground (store (handleRedoBackground f p)) = None
   \<and> currentFrame (store (handleRedoBackground f p)) = None
   \<and> frameCount (handleRedoBackground f p) = 0
   \<and> fps (handleRedoBackground f p) = 0
   \<and> processingStatus (store (handleRedoBackground f p)) = ''Not started''
   \<and> isProcessing (store (handleRedoBackground f p)) = False
   \<and> hasBackground (store (handleRedoBackground f p)) = False
   \<and> sessionId (store (handleRedoBackground f p)) = None
   \<and> isSessionActive (store (handleRedoBackground f p)) = False
   \<and> (savedView p \<longrightarrow> store (step p (ClickRedo f)) = store (handleRedoBackground f p)
                       \<and> frameCount (step p (ClickRedo f)) = 0)
   \<and> ((\<forall>g. ev \<noteq> ClickRedo g) \<and> savedBackground (store p) \<noteq> None
        \<longrightarrow> savedBackground (store (step p ev)) \<noteq> None)"
proof -
  have "savedView p \<longrightarrow> store (step p (ClickRedo f)) = store (handleRedoBackground f p)
                       \<and> frameCount (step p (ClickRedo f)) = 0"
    by (simp add: clickRedo_def basic_fields more_fields store_commit redo_fields
        commit_def captureEffect_def captureEffectCleanup_def)
  then show ?thesis
    using only_redo_destroys [of ev p]
    by (simp add: redo_store redo_fields resetSession_def clearSavedBackground_def)
qed

theorem redo_resets_and_only_redo_clears_saved_background_witness:
  "savedView backgroundSaved
   \<and> savedBackground (store backgroundSaved)
       = Some \<lparr>sb_image = ''img1'', sb_sessionId = ''s1'', sb_savedAt = ''t1'', sb_metadata = None\<rparr>
   \<and> savedBackground (store (step backgroundSaved (ClickRedo NoFault))) = None
   \<and> sessionId (store (step backgroundSaved (ClickRedo NoFault))) = None
   \<and> savedBackground (store (step backgroundSaved (ClickProceed NoFault))) \<noteq> None"
proof -
  note T = redo_resets_and_only_redo_clears_saved_background
             [of NoFault backgroundSaved "ClickProceed NoFault"]
  have v: "savedView backgroundSaved"
    by (simp add: backgroundSaved_eval savedView_def)
  have b: "savedBackground (store backgroundSaved)
      = Some \<lparr>sb_image = ''img1'', sb_sessionId = ''s1'', sb_savedAt = ''t1'', sb_metadata = None\<rparr>"
    by (simp add: backgroundSaved_eval)
  from T v have r: "store (step backgroundSaved (ClickRedo NoFault))
      = store (handleRedoBackground NoFault backgroundSaved)"
    by blast
  from T have n: "savedBackground (store (handleRedoBackground NoFault backgroundSaved)) = None"
    and i: "sessionId (store (handleRedoBackground NoFault backgroundSaved)) = None"
    by blast+
  from T b have k: "savedBackground (store (step backgroundSaved (ClickProceed NoFault))) \<noteq> None"
    by simp
  show ?thesis
    using v b r n i k by simp
qed

text \<open>
  C6, as amended. No trigger performs the four steps in every case.
  \<^item> The explicit stop performs the first two steps only: it cancels the pending tick of
    the capture loop, if one is pending, and stops every track of the camera stream, if
    one is held (for an uploaded video nothing is released); it also clears the frame
    interval of the service, which the page never sets.
  \<^item> Proceeding to the calibration and redo perform these steps and then, if the socket
    is connected, send \<^verbatim>\<open>end_session\<close> and close the socket, in this order and each once;
    if the socket is not connected, neither takes place.
  \<^item> A drop of the transport performs none of the four steps.
  \<^item> A step that raises ends the teardown: when stopping a track raises, the media are
    not released and the server is not notified, proceed only navigates and redo only
    resets the store; when the notification raises, the socket is not closed.
\<close>

theorem teardown_steps_per_trigger:
  "(releaseRaises f ls = None \<longrightarrow>
      newEffects p (fst (stopCapture f ls iuv p))
        = cancelLoopEffects p @ releaseMediaEffects ls @ fst (stopFrameCapture (ws p))
      \<and> snd (stopCapture f ls iuv p) = None)
   \<and> (stopEnabled p \<and> releaseRaises f (localStream p) = None \<longrightarrow>
        newEffects p (step p (ClickStop f))
          = cancelLoopEffects p @ releaseMediaEffects (localStream p)
            @ fst (stopFrameCapture (ws p)))
   \<and> (releaseRaises f (localStream p) = None \<and> \<not> (isConnected (ws p) \<and> socketFault f) \<longrightarrow>
        newEffects p (handleProceedToCalibration f p)
          = cancelLoopEffects p @ releaseMediaEffects (localStream p)
            @ fst (stopFrameCapture (ws p)) @ endAndCloseEffects (ws p)
            @ [Navigate ''/calibration'']
        \<and> newEffects p (handleRedoBackground f p)
          = cancelLoopEffects p @ releaseMediaEffects (localStream p)
            @ fst (stopFrameCapture (ws p)) @ endAndCloseEffects (ws p) @ revokeEffects p)
   \<and> (savedView p \<longrightarrow>
        newEffects p (step p (ClickProceed f)) = newEffects p (handleProceedToCalibration f p)
        \<and> newEffects p (step p (ClickRedo f)) = newEffects p (handleRedoBackground f p))
   \<and> newEffects p (step p SocketDisconnect)
       = (case socket (ws p) of None \<Rightarrow> [] | Some k \<Rightarrow> fst (stopFrameCapture (ws p)))
   \<and> timers (step p SocketDisconnect) = timers p
   \<and> localStream (step p SocketDisconnect) = localStream p
   \<and> (releaseRaises f (localStream p) = Some m \<longrightarrow>
        newEffects p (handleProceedToCalibration f p)
          = cancelLoopEffects p @ [Navigate ''/calibration'']
        \<and> newEffects p (handleRedoBackground f p) = cancelLoopEffects p
        \<and> (stopEnabled p \<longrightarrow>
             newEffects p (step p (ClickStop f)) = cancelLoopEffects p @ [Uncaught m]))
   \<and> (isConnected (ws p) \<longrightarrow>
        newEffects p (handleProceedToCalibration (EmitThrows m) p)
          = cancelLoopEffects p @ releaseMediaEffects (localStream p)
            @ fst (stopFrameCapture (ws p)) @ [Navigate ''/calibration'']
        \<and> newEffects p (handleProceedToCalibration (CloseThrows m) p)
          = cancelLoopEffects p @ releaseMediaEffects (localStream p)
            @ fst (stopFrameCapture (ws p)) @ [Emit (End_session (socketId (ws p)))]
            @ [Navigate ''/calibration'']
        \<and> newEffects p (handleRedoBackground (EmitThrows m) p)
          = cancelLoopEffects p @ releaseMediaEffects (localStream p)
            @ fst (stopFrameCapture (ws p))
        \<and> newEffects p (handleRedoBackground (CloseThrows m) p)
          = cancelLoopEffects p @ releaseMediaEffects (localStream p)
            @ fst (stopFrameCapture (ws p)) @ [Emit (End_session (socketId (ws p)))])
   \<and> releaseMediaEffects None = []
   \<and> releaseMediaEffects (Some tracks) = map TrackStop tracks
   \<and> cancelLoopEffects p
       = (case captureIntervalRef p of None \<Rightarrow> [] | Some i \<Rightarrow> [ClearTimeout i])"
proof -
  have a: "releaseRaises f ls = None \<longrightarrow>
      newEffects p (fst (stopCapture f ls iuv p))
        = cancelLoopEffects p @ releaseMediaEffects ls @ fst (stopFrameCapture (ws p))
      \<and> snd (stopCapture f ls iuv p) = None"
    by (simp add: newEffects_def stopCapture_returns)
  have b: "stopEnabled p \<and> releaseRaises f (localStream p) = None \<longrightarrow>
        newEffects p (step p (ClickStop f))
          = cancelLoopEffects p @ releaseMediaEffects (localStream p)
            @ fst (stopFrameCapture (ws p))"
    by (simp add: newEffects_def click_teardown_effects uncaught_fields stopCapture_returns)
  have c: "releaseRaises f (localStream p) = None \<and> \<not> (isConnected (ws p) \<and> socketFault f) \<longrightarrow>
        newEffects p (handleProceedToCalibration f p)
          = cancelLoopEffects p @ releaseMediaEffects (localStream p)
            @ fst (stopFrameCapture (ws p)) @ endAndCloseEffects (ws p)
            @ [Navigate ''/calibration'']
        \<and> newEffects p (handleRedoBackground f p)
          = cancelLoopEffects p @ releaseMediaEffects (localStream p)
            @ fst (stopFrameCapture (ws p)) @ endAndCloseEffects (ws p) @ revokeEffects p"
    using proceed_effects_returns [of f p] redo_effects_returns [of f p]
    by (simp add: newEffects_def)
  have d: "savedView p \<longrightarrow>
        newEffects p (step p (ClickProceed f)) = newEffects p (handleProceedToCalibration f p)
        \<and> newEffects p (step p (ClickRedo f)) = newEffects p (handleRedoBackground f p)"
    by (simp add: newEffects_def click_teardown_effects)
  have e: "newEffects p (step p SocketDisconnect)
       = (case socket (ws p) of None \<Rightarrow> [] | Some k \<Rightarrow> fst (stopFrameCapture (ws p)))"
      "timers (step p SocketDisconnect) = timers p"
      "localStream (step p SocketDisconnect) = localStream p"
    by (simp_all add: newEffects_def socketDisconnect_def callWs_alt stopFrameCapture_def
        split: option.split)
  have g: "releaseRaises f (localStream p) = Some m \<longrightarrow>
        newEffects p (handleProceedToCalibration f p)
          = cancelLoopEffects p @ [Navigate ''/calibration'']
        \<and> newEffects p (handleRedoBackground f p) = cancelLoopEffects p
        \<and> (stopEnabled p \<longrightarrow>
             newEffects p (step p (ClickStop f)) = cancelLoopEffects p @ [Uncaught m])"
    by (simp add: newEffects_def proceed_effects_release_raises redo_effects_release_raises
        click_teardown_effects uncaught_fields stopCapture_raises)
  have h: "isConnected (ws p) \<longrightarrow>
        newEffects p (handleProceedToCalibration (EmitThrows m) p)
          = cancelLoopEffects p @ releaseMediaEffects (localStream p)
            @ fst (stopFrameCapture (ws p)) @ [Navigate ''/calibration'']
        \<and> newEffects p (handleProceedToCalibration (CloseThrows m) p)
          = cancelLoopEffects p @ releaseMediaEffects (localStream p)
            @ fst (stopFrameCapture (ws p)) @ [Emit (End_session (socketId (ws p)))]
            @ [Navigate ''/calibration'']
        \<and> newEffects p (handleRedoBackground (EmitThrows m) p)
          = cancelLoopEffects p @ releaseMediaEffects (localStream p)
            @ fst (stopFrameCapture (ws p))
        \<and> newEffects p (handleRedoBackground (CloseThrows m) p)
          = cancelLoopEffects p @ releaseMediaEffects (localStream p)
            @ fst (stopFrameCapture (ws p)) @ [Emit (End_session (socketId (ws p)))]"
    by (simp add: newEffects_def proceed_effects_socket_raises redo_effects_socket_raises)
  have i: "releaseMediaEffects None = []"
      "releaseMediaEffects (Some tracks) = map TrackStop tracks"
      "cancelLoopEffects p
       = (case captureIntervalRef p of None \<Rightarrow> [] | Some i \<Rightarrow> [ClearTimeout i])"
    by (simp_all add: releaseMediaEffects_def cancelLoopEffects_def)
  from a b c d e g h i show ?thesis by blast
qed

theorem teardown_steps_per_trigger_witness:
  "savedView backgroundSaved
   \<and> newEffects backgroundSaved (step backgroundSaved (ClickProceed NoFault))
       = [ClearTimeout 0, TrackStop 0, Emit (End_session (Some ''abc'')), SocketClose,
          Navigate ''/calibration'']
   \<and> newEffects backgroundSaved (step backgroundSaved (ClickRedo NoFault))
       = [ClearTimeout 0, TrackStop 0, Emit (End_session (Some ''abc'')), SocketClose]
   \<and> newEffects backgroundSaved (step backgroundSaved (ClickProceed (TrackStopThrows ''boom'')))
       = [ClearTimeout 0, Navigate ''/calibration'']
   \<and> newEffects backgroundSaved (step backgroundSaved (ClickProceed (EmitThrows ''boom'')))
       = [ClearTimeout 0, TrackStop 0, Navigate ''/calibration'']
   \<and> stopEnabled capturing
   \<and> newEffects capturing (step capturing (ClickStop NoFault)) = [ClearTimeout 0, TrackStop 0]
   \<and> stopEnabled fileCapturing
   \<and> localStream fileCapturing = None
   \<and> newEffects fileCapturing (step fileCapturing (ClickStop NoFault)) = [ClearTimeout 0]"
proof -
  note T = teardown_steps_per_trigger
    [where p = backgroundSaved and f = NoFault and ls = None and iuv = False
       and m = "''boom''" and tracks = "[0]"]
  note R = teardown_steps_per_trigger
    [where p = backgroundSaved and f = "TrackStopThrows ''boom''" and ls = None and iuv = False
       and m = "''boom''" and tracks = "[0]"]
  note E = teardown_steps_per_trigger
    [where p = backgroundSaved and f = "EmitThrows ''boom''" and ls = None and iuv = False
       and m = "''boom''" and tracks = "[0]"]
  note U = teardown_steps_per_trigger
    [where p = capturing and f = NoFault and ls = None and iuv = False
       and m = "''boom''" and tracks = "[0]"]
  note V = teardown_steps_per_trigger
    [where p = fileCapturing and f = NoFault and ls = None and iuv = False
       and m = "''boom''" and tracks = "[0]"]
  have v: "savedView backgroundSaved"
    by (simp add: backgroundSaved_eval savedView_def)
  have saved:
    "cancelLoopEffects backgroundSaved = [ClearTimeout 0]"
    "localStream backgroundSaved = Some [0]"
    "fst (stopFrameCapture (ws backgroundSaved)) = []"
    "endAndCloseEffects (ws backgroundSaved) = [Emit (End_session (Some ''abc'')), SocketClose]"
    "revokeEffects backgroundSaved = []"
    "isConnected (ws backgroundSaved)"
    by (simp_all add: backgroundSaved_eval capturing_eval sessionStarted_eval
        cameraStarting_eval cancelLoopEffects_def endAndCloseEffects_def
        revokeEffects_def ws_defs)
  have rr: "releaseRaises (TrackStopThrows ''boom'') (Some [0]) = Some ''boom''"
      "\<not> socketFault NoFault"
    by (simp_all add: releaseRaises_def socketFault_def)
  have cap:
    "stopEnabled capturing"
    "cancelLoopEffects capturing = [ClearTimeout 0]"
    "localStream capturing = Some [0]"
    "fst (stopFrameCapture (ws capturing)) = []"
    by (simp_all add: capturing_eval sessionStarted_eval cameraStarting_eval stopEnabled_def
        savedView_def initialState_def cancelLoopEffects_def ws_defs)
  have fil:
    "stopEnabled fileCapturing"
    "localStream fileCapturing = None"
    "cancelLoopEffects fileCapturing = [ClearTimeout 0]"
    "fst (stopFrameCapture (ws fileCapturing)) = []"
    by (simp_all add: fileCapturing_fields stopEnabled_def savedView_def cancelLoopEffects_def
        ws_defs)
  from T v saved rr have t:
    "newEffects backgroundSaved (step backgroundSaved (ClickProceed NoFault))
       = [ClearTimeout 0, TrackStop 0, Emit (End_session (Some ''abc'')), SocketClose,
          Navigate ''/calibration'']"
    "newEffects backgroundSaved (step backgroundSaved (ClickRedo NoFault))
       = [ClearTimeout 0, TrackStop 0, Emit (End_session (Some ''abc'')), SocketClose]"
    by simp_all
  from R v saved rr have r:
    "newEffects backgroundSaved (step backgroundSaved (ClickProceed (TrackStopThrows ''boom'')))
       = [ClearTimeout 0, Navigate ''/calibration'']"
    by simp
  from E v saved have e:
    "newEffects backgroundSaved (step backgroundSaved (ClickProceed (EmitThrows ''boom'')))
       = [ClearTimeout 0, TrackStop 0, Navigate ''/calibration'']"
    by simp
  from U cap have u:
    "newEffects capturing (step capturing (ClickStop NoFault)) = [ClearTimeout 0, TrackStop 0]"
    by simp
  from V fil have w:
    "newEffects fileCapturing (step fileCapturing (ClickStop NoFault)) = [ClearTimeout 0]"
    by simp
  from v t r e cap(1) u fil(1,2) w show ?thesis by blast
qed

text \<open>
  C6 as stated fails. In the run \<open>capturing\<close> the session is active and the loop is
  running. A click on the stop button cancels the pending tick and stops the camera track,
  and that is all: no \<^verbatim>\<open>end_session\<close> is sent and the socket stays connected. A drop
  of the transport performs no step: the tick stays pending and the camera stream is kept.
  In the run \<open>backgroundSaved\<close>, a redo in which stopping the track raises cancels the
  pending tick and performs no later step: the stream is kept and the socket stays
  connected.
\<close>

theorem teardown_incomplete_counterexample:
  "stopEnabled capturing
   \<and> isSessionActive (store capturing)
   \<and> newEffects capturing (step capturing (ClickStop NoFault)) = [ClearTimeout 0, TrackStop 0]
   \<and> isConnected (ws (step capturing (ClickStop NoFault)))
   \<and> newEffects capturing (step capturing SocketDisconnect) = []
   \<and> timers (step capturing SocketDisconnect) = [0]
   \<and> localStream (step capturing SocketDisconnect) = Some [0]
   \<and> savedView backgroundSaved
   \<and> newEffects backgroundSaved (step backgroundSaved (ClickRedo (TrackStopThrows ''boom'')))
       = [ClearTimeout 0]
   \<and> localStream (step backgroundSaved (ClickRedo (TrackStopThrows ''boom''))) = Some [0]
   \<and> isConnected (ws (step backgroundSaved (ClickRedo (TrackStopThrows ''boom''))))"
proof -
  have a: "stopEnabled capturing" "isSessionActive (store capturing)"
      "newEffects capturing (step capturing (ClickStop NoFault)) = [ClearTimeout 0, TrackStop 0]"
      "isConnected (ws (step capturing (ClickStop NoFault)))"
    by (simp_all add: capturing_eval sessionStarted_eval cameraStarting_eval eval_defs)
  have b: "newEffects capturing (step capturing SocketDisconnect) = []"
      "timers (step capturing SocketDisconnect) = [0]"
      "localStream (step capturing SocketDisconnect) = Some [0]"
    by (simp_all add: capturing_eval sessionStarted_eval cameraStarting_eval eval_defs)
  have c: "savedView backgroundSaved"
    by (simp add: backgroundSaved_eval savedView_def)
  have d: "newEffects backgroundSaved (step backgroundSaved (ClickRedo (TrackStopThrows ''boom'')))
       = [ClearTimeout 0]"
      "localStream (step backgroundSaved (ClickRedo (TrackStopThrows ''boom''))) = Some [0]"
      "isConnected (ws (step backgroundSaved (ClickRedo (TrackStopThrows ''boom''))))"
    by (simp_all add: backgroundSaved_eval capturing_eval sessionStarted_eval
        cameraStarting_eval eval_defs)
  from a b c d show ?thesis by blast
qed

text \<open>
  C7, as amended. \<^verbatim>\<open>disconnect()\<close> stops the frame capture of the service. If the socket
  is connected (which is all the connector knows of a session) it sends \<^verbatim>\<open>end_session\<close>
  and then closes the socket; if a socket exists that is not connected, the socket is
  forgotten and not closed. Whenever the function returns, the socket reference is null.
  It has no \<^verbatim>\<open>throw\<close> and no \<^verbatim>\<open>try\<close>: it returns unless \<^verbatim>\<open>socket.emit\<close> or
  \<^verbatim>\<open>socket.disconnect\<close> raises on a connected socket, and then the exception leaves it
  with the socket reference still set. Called without a connected socket, or called again
  after it has returned, it sends nothing, closes nothing and does not raise.
\<close>

theorem disconnect_notifies_and_closes_connected_socket:
  "(\<not> isConnected w \<longrightarrow>
      disconnect f w =
        (fst (stopFrameCapture w), (snd (stopFrameCapture w))\<lparr>socket := None\<rparr>, None))
   \<and> (isConnected w \<and> \<not> socketFault f \<longrightarrow>
        disconnect f w =
          (fst (stopFrameCapture w) @ [Emit (End_session (socketId w)), SocketClose],
           (snd (stopFrameCapture w))\<lparr>socket := None\<rparr>, None))
   \<and> (isConnected w \<longrightarrow>
        disconnect (EmitThrows m) w = (fst (stopFrameCapture w), snd (stopFrameCapture w), Some m)
        \<and> disconnect (CloseThrows m) w =
            (fst (stopFrameCapture w) @ [Emit (End_session (socketId w))],
             snd (stopFrameCapture w), Some m))
   \<and> (raisedBy (disconnect f w) = None \<longrightarrow> socket (serviceOf (disconnect f w)) = None)
   \<and> (raisedBy (disconnect f w) = None \<longrightarrow>
        disconnect g (serviceOf (disconnect f w)) = ([], serviceOf (disconnect f w), None))"
proof -
  have a: "\<not> isConnected w \<longrightarrow>
      disconnect f w =
        (fst (stopFrameCapture w), (snd (stopFrameCapture w))\<lparr>socket := None\<rparr>, None)"
    by (simp add: disconnect_not_connected)
  have b: "isConnected w \<and> \<not> socketFault f \<longrightarrow>
        disconnect f w =
          (fst (stopFrameCapture w) @ [Emit (End_session (socketId w)), SocketClose],
           (snd (stopFrameCapture w))\<lparr>socket := None\<rparr>, None)"
    by (cases f) (simp_all add: disconnect_connected socketFault_def)
  have c: "isConnected w \<longrightarrow>
        disconnect (EmitThrows m) w = (fst (stopFrameCapture w), snd (stopFrameCapture w), Some m)
        \<and> disconnect (CloseThrows m) w =
            (fst (stopFrameCapture w) @ [Emit (End_session (socketId w))],
             snd (stopFrameCapture w), Some m)"
    by (simp add: disconnect_connected)
  have d: "raisedBy (disconnect f w) = None \<longrightarrow> socket (serviceOf (disconnect f w)) = None"
    by (cases "isConnected w"; cases f)
       (simp_all add: disconnect_connected disconnect_not_connected)
  have e: "raisedBy (disconnect f w) = None \<longrightarrow>
        disconnect g (serviceOf (disconnect f w)) = ([], serviceOf (disconnect f w), None)"
    by (cases "isConnected w"; cases f)
       (simp_all add: disconnect_connected disconnect_not_connected isConnected_def
          stopFrameCapture_def split: option.split)
  from a b c d e show ?thesis by blast
qed

theorem disconnect_notifies_and_closes_connected_socket_witness:
  "isConnected (ws capturing)
   \<and> disconnect NoFault (ws capturing)
       = ([Emit (End_session (Some ''abc'')), SocketClose],
          \<lparr>socket = None, frameInterval = None, videoElement = None\<rparr>, None)
   \<and> disconnect (EmitThrows ''boom'') (ws capturing) = ([], ws capturing, Some ''boom'')
   \<and> \<not> isConnected (ws connecting)
   \<and> disconnect NoFault (ws connecting)
       = ([], \<lparr>socket = None, frameInterval = None, videoElement = None\<rparr>, None)
   \<and> disconnect NoFault \<lparr>socket = None, frameInterval = None, videoElement = None\<rparr>
       = ([], \<lparr>socket = None, frameInterval = None, videoElement = None\<rparr>, None)"
proof -
  note T = disconnect_notifies_and_closes_connected_socket
             [where w = "ws capturing" and f = NoFault and m = "''boom''" and g = NoFault]
  note U = disconnect_notifies_and_closes_connected_socket
             [where w = "ws connecting" and f = NoFault and m = "''boom''" and g = NoFault]
  have c: "ws capturing = \<lparr>socket = Some \<lparr>connected = True, sock_id = Some ''abc''\<rparr>,
                            frameInterval = None, videoElement = None\<rparr>"
    by (simp add: capturing_eval sessionStarted_eval cameraStarting_eval)
  have n: "ws connecting = \<lparr>socket = Some \<lparr>connected = False, sock_id = None\<rparr>,
                             frameInterval = None, videoElement = None\<rparr>"
    by (simp add: connecting_eval)
  have ic: "isConnected (ws capturing)" "\<not> isConnected (ws connecting)" "\<not> socketFault NoFault"
    by (simp_all add: c n isConnected_def socketFault_def)
  have sc: "stopFrameCapture (ws capturing) = ([], ws capturing)"
      "stopFrameCapture (ws connecting) = ([], ws connecting)"
      "socketId (ws capturing) = Some ''abc''"
    by (simp_all add: c n stopFrameCapture_def socketId_def)
  from T ic sc have t1: "disconnect NoFault (ws capturing)
       = ([Emit (End_session (Some ''abc'')), SocketClose], (ws capturing)\<lparr>socket := None\<rparr>, None)"
    and t2: "disconnect (EmitThrows ''boom'') (ws capturing) = ([], ws capturing, Some ''boom'')"
    by simp_all
  from U ic sc have u1: "disconnect NoFault (ws connecting)
       = ([], (ws connecting)\<lparr>socket := None\<rparr>, None)"
    by simp
  have z: "disconnect NoFault \<lparr>socket = None, frameInterval = None, videoElement = None\<rparr>
       = ([], \<lparr>socket = None, frameInterval = None, videoElement = None\<rparr>, None)"
    by (simp add: disconnect_not_connected isConnected_def stopFrameCapture_def)
  show ?thesis
    using ic t1 t2 u1 z by (simp add: c n)
qed

text \<open>
  C7 as stated fails. In the run \<open>connecting\<close> the service holds a socket that has not yet
  reported \<^verbatim>\<open>connect\<close>. \<^verbatim>\<open>disconnect()\<close> forgets this socket and does not close it: the
  link is not torn down.
\<close>

theorem socket_forgotten_without_close_counterexample:
  "socket (ws connecting) = Some \<lparr>connected = False, sock_id = None\<rparr>
   \<and> effectsOf (disconnect NoFault (ws connecting)) = []
   \<and> SocketClose \<notin> set (effectsOf (disconnect NoFault (ws connecting)))
   \<and> socket (serviceOf (disconnect NoFault (ws connecting))) = None"
  by (simp add: connecting_eval initialPage_def ws_defs)



text \<open>
  C9. A sequence of \<^verbatim>\<open>frame_processed\<close> events is applied in order. After an event,
  \<open>hasBackground\<close> is the \<^verbatim>\<open>has_background\<close> flag of that event, whatever came before; and
  from a state where \<open>hasBackground\<close> is false, events whose flag is false leave it false, so
  that it becomes true only with the first event whose flag is true.
\<close>

theorem hasBackground_follows_last_event:
  "hasBackground (frameEvents s (ps @ [p])) = has_background p
   \<and> (\<not> hasBackground s \<and> (\<forall>q \<in> set ps. \<not> has_background q)
        \<longrightarrow> \<not> hasBackground (frameEvents s ps))"
  using frameEvents_all_false [of s ps]
  by (simp add: frameEvents_snoc handleFrameProcessed_def)

theorem hasBackground_follows_last_event_witness:
  "hasBackground (frameEvents initialState
      ([\<lparr>processed_frame = ''a'', frame_count = 1, status = ''x'', has_background = False\<rparr>,
        \<lparr>processed_frame = ''b'', frame_count = 2, status = ''x'', has_background = False\<rparr>]
       @ [\<lparr>processed_frame = ''c'', frame_count = 3, status = ''x'', has_background = True\<rparr>]))
   \<and> \<not> hasBackground initialState
   \<and> \<not> hasBackground (frameEvents initialState
      [\<lparr>processed_frame = ''a'', frame_count = 1, status = ''x'', has_background = False\<rparr>,
       \<lparr>processed_frame = ''b'', frame_count = 2, status = ''x'', has_background = False\<rparr>])"
  using hasBackground_follows_last_event
    [of initialState
        "[\<lparr>processed_frame = ''a'', frame_count = 1, status = ''x'', has_background = False\<rparr>,
          \<lparr>processed_frame = ''b'', frame_count = 2, status = ''x'', has_background = False\<rparr>]"
        "\<lparr>processed_frame = ''c'', frame_count = 3, status = ''x'', has_background = True\<rparr>"]
  by (simp add: initialState_def)

text \<open>
  C10. The \<^verbatim>\<open>end_session\<close> event carries the identifier of the socket
  (\<^verbatim>\<open>this.socket?.id\<close>): \<^verbatim>\<open>endSession\<close> sends it with that value when the socket is
  connected, and so does \<^verbatim>\<open>disconnect\<close>. The value does not depend on the store, where
  the session identifier issued by the server is kept. Without a socket the value is
  undefined (and nothing is sent).
\<close>

theorem end_session_carries_socket_id:
  "effectsOf (endSession f w) =
     (if isConnected w
      then (case f of EmitThrows m \<Rightarrow> [] | _ \<Rightarrow> [Emit (End_session (socketId w))])
      else [ConsoleError ''Socket not connected''])
   \<and> (\<forall>k. socket w = Some k \<longrightarrow> socketId w = sock_id k)
   \<and> (socket w = None \<longrightarrow>
        socketId w = None \<and> effectsOf (endSession f w) = [ConsoleError ''Socket not connected''])
   \<and> (\<forall>x. Emit (End_session x) \<in> set (effectsOf (endSession f w)) \<union> set (effectsOf (disconnect f w))
          \<longrightarrow> x = socketId w)
   \<and> newEffects (p\<lparr>store := st\<rparr>) (fst (tryWs (endSession f) (p\<lparr>store := st\<rparr>)))
       = newEffects p (fst (tryWs (endSession f) p))
   \<and> newEffects (p\<lparr>store := st\<rparr>) (fst (tryWs (disconnect f) (p\<lparr>store := st\<rparr>)))
       = newEffects p (fst (tryWs (disconnect f) p))"
proof -
  have a: "effectsOf (endSession f w) =
     (if isConnected w
      then (case f of EmitThrows m \<Rightarrow> [] | _ \<Rightarrow> [Emit (End_session (socketId w))])
      else [ConsoleError ''Socket not connected''])"
    by (cases f) (simp_all add: endSession_def emit_def)
  have b: "\<forall>k. socket w = Some k \<longrightarrow> socketId w = sock_id k"
    by (simp add: socketId_def)
  have c: "socket w = None \<longrightarrow>
        socketId w = None \<and> effectsOf (endSession f w) = [ConsoleError ''Socket not connected'']"
    by (simp add: socketId_def endSession_def emit_def isConnected_def)
  have d: "\<forall>x. Emit (End_session x) \<in> set (effectsOf (endSession f w)) \<union> set (effectsOf (disconnect f w))
          \<longrightarrow> x = socketId w"
    by (cases "isConnected w"; cases f)
       (auto simp add: endSession_def emit_def disconnect_connected disconnect_not_connected
          stopFrameCapture_def split: option.splits)
  have e: "newEffects (p\<lparr>store := st\<rparr>) (fst (tryWs (endSession f) (p\<lparr>store := st\<rparr>)))
       = newEffects p (fst (tryWs (endSession f) p))"
      "newEffects (p\<lparr>store := st\<rparr>) (fst (tryWs (disconnect f) (p\<lparr>store := st\<rparr>)))
       = newEffects p (fst (tryWs (disconnect f) p))"
    by (simp_all add: newEffects_def tryWs_alt)
  from a b c d e show ?thesis by blast
qed

theorem end_session_carries_socket_id_witness:
  "sessionId (store capturing) = Some ''s1''
   \<and> socket (ws capturing) = Some \<lparr>connected = True, sock_id = Some ''abc''\<rparr>
   \<and> effectsOf (endSession NoFault (ws capturing)) = [Emit (End_session (Some ''abc''))]
   \<and> effectsOf (disconnect NoFault (ws capturing)) = [Emit (End_session (Some ''abc'')), SocketClose]
   \<and> socketId \<lparr>socket = None, frameInterval = None, videoElement = None\<rparr> = None"
  using end_session_carries_socket_id
      [where w = "ws capturing" and p = capturing and st = initialState and f = NoFault]
    end_session_carries_socket_id
      [where w = "\<lparr>socket = None, frameInterval = None, videoElement = None\<rparr>"
         and p = capturing and st = initialState and f = NoFault]
  by (simp add: capturing_eval sessionStarted_eval cameraStarting_eval eval_defs
      case_prod_unfold)

end
